theory Spec2Isabelle
  imports Main
begin

section \<open>Errors\<close>

text \<open>
  Go error values.  \<open>External\<close> stands for an error produced by a collaborator outside the
  repository (HTTP transport, autorest, \<open>url.Parse\<close>, the Azure SDK).  \<open>Errorf\<close> keeps the
  format string of \<open>fmt.Errorf\<close> and its arguments; \<open>NewErrorWithError\<close> keeps the original
  error, the package type, the method and the message of \<open>autorest.NewErrorWithError\<close>.
\<close>

datatype error =
    External string
  | NewErrorWithError error string string string
  | Errorf string "fmt_arg list"
  | ImportAsExistsError string string
  | ResourceRequiresImport string string
and fmt_arg = ArgS string | ArgE error

text \<open>
  A call either returns or panics (a call through a nil function value, a failed type
  assertion).
\<close>

datatype 'r outcome = Panic | Return 'r

section \<open>Paginated list client (package configurations)\<close>

text \<open>The local type \<open>page\<close> of \<open>responderForListByServer\<close>: the decoded JSON body.\<close>

record 'a page =
  Values :: "'a list"
  NextLink :: "string option"

text \<open>The decorators handed to \<open>autorest.CreatePreparer\<close>.\<close>

record prep =
  ContentType :: string
  Method :: string
  BaseURL :: string
  Path :: string
  QueryParameters :: "string \<rightharpoonup> string"

text \<open>What the code reads of a parsed \<open>url.URL\<close>: its path and its query values.\<close>

record uri =
  uPath :: string
  uQuery :: "string \<rightharpoonup> string list"

text \<open>
  The client.  \<open>baseUri\<close> and \<open>Send\<close> are the client's own members; \<open>Send\<close> acts on
  the remote state \<open>'w\<close>; a request or response pointer is an option, \<open>None\<close> being nil.
  The remaining fields are the functions and constants the methods
  call that live outside the source files at hand: the package constant
  \<open>defaultApiVersion\<close>, \<open>ServerId.ID\<close>, \<open>Preparer.Prepare\<close>, \<open>url.Parse\<close>,
  \<open>autorest.Encode\<close> and \<open>autorest.Respond\<close> with the decorators
  \<open>WithErrorUnlessStatusCode(200)\<close>, \<open>ByUnmarshallingJSON\<close>, \<open>ByClosing\<close>, which yields
  the decoded body and an error.
\<close>

record ('i, 'q, 'h, 'w, 'a) ConfigurationsClient =
  baseUri :: string
  Send :: "'q option \<Rightarrow> 'w \<Rightarrow> ('h option \<times> error option) \<times> 'w"
  defaultApiVersion :: string
  ID :: "'i \<Rightarrow> string"
  Prepare :: "prep \<Rightarrow> 'q option \<times> error option"
  url_Parse :: "string \<Rightarrow> uri \<times> error option"
  Encode :: "string \<Rightarrow> string \<Rightarrow> string"
  Respond :: "'h option \<Rightarrow> 'a page \<times> error option"

text \<open>
  \<open>nextPageFunc\<close> is a closure whose only captured variable is the client; it is
  represented by that client (\<open>None\<close> is the nil function).
\<close>

record ('i, 'q, 'h, 'w, 'a) ListByServerResponse =
  HttpResponse :: "'h option"
  Model :: "'a list option"
  nextLink :: "string option"
  nextPageFunc :: "('i, 'q, 'h, 'w, 'a) ConfigurationsClient option"

record 'a ListByServerCompleteResult =
  Items :: "'a list"

text \<open>The zero values of the two result structs.\<close>

definition zeroResponse :: "('i, 'q, 'h, 'w, 'a) ListByServerResponse" where
  "zeroResponse = \<lparr>HttpResponse = None, Model = None, nextLink = None, nextPageFunc = None\<rparr>"

definition zeroCompleteResult :: "'a ListByServerCompleteResult" where
  "zeroCompleteResult = \<lparr>Items = []\<rparr>"

text \<open>The network: the requests sent so far, in order, and the remote state.\<close>

type_synonym ('q, 'w) net = "'q option list \<times> 'w"

definition Client_Send ::
  "('i, 'q, 'h, 'w, 'a) ConfigurationsClient \<Rightarrow> 'q option \<Rightarrow> ('q, 'w) net
     \<Rightarrow> ('h option \<times> error option) \<times> ('q, 'w) net" where
  "Client_Send c req n =
     (case Send c req (snd n) of (r, w') \<Rightarrow> (r, (fst n @ [req], w')))"

definition HasMore :: "('i, 'q, 'h, 'w, 'a) ListByServerResponse \<Rightarrow> bool" where
  "HasMore r = (nextLink r \<noteq> None)"

definition preparerForListByServer ::
  "('i, 'q, 'h, 'w, 'a) ConfigurationsClient \<Rightarrow> 'i \<Rightarrow> 'q option \<times> error option" where
  "preparerForListByServer c ident =
     (let queryParameters = [''api-version'' \<mapsto> defaultApiVersion c]
      in Prepare c \<lparr>ContentType = ''application/json; charset=utf-8'', Method = ''GET'',
           BaseURL = baseUri c, Path = ID c ident @ ''/configurations'',
           QueryParameters = queryParameters\<rparr>)"

definition preparerForListByServerWithNextLink ::
  "('i, 'q, 'h, 'w, 'a) ConfigurationsClient \<Rightarrow> string \<Rightarrow> 'q option \<times> error option" where
  "preparerForListByServerWithNextLink c nl =
     (case url_Parse c nl of
        (u, Some e) \<Rightarrow> (None, Some (Errorf ''parsing nextLink %q: %+v'' [ArgS nl, ArgE e]))
      | (u, None) \<Rightarrow>
          (let queryParameters =
                 (\<lambda>k. case uQuery u k of
                         None \<Rightarrow> None
                       | Some v \<Rightarrow> (case v of [] \<Rightarrow> None
                                    | val # _ \<Rightarrow> Some (Encode c ''query'' val)))
           in Prepare c \<lparr>ContentType = ''application/json; charset=utf-8'',
                Method = ''GET'', BaseURL = baseUri c, Path = uPath u,
                QueryParameters = queryParameters\<rparr>))"

definition responderForListByServer ::
  "('i, 'q, 'h, 'w, 'a) ConfigurationsClient \<Rightarrow> 'h option
     \<Rightarrow> ('i, 'q, 'h, 'w, 'a) ListByServerResponse \<times> error option" where
  "responderForListByServer c resp =
     (case Respond c resp of
        (respObj, err) \<Rightarrow>
          (\<lparr>HttpResponse = resp, Model = Some (Values respObj), nextLink = NextLink respObj,
            nextPageFunc = (if NextLink respObj \<noteq> None then Some c else None)\<rparr>, err))"

text \<open>The function literal stored in \<open>nextPageFunc\<close>, applied to the client it captured.\<close>

definition nextPage ::
  "('i, 'q, 'h, 'w, 'a) ConfigurationsClient \<Rightarrow> string \<Rightarrow> ('q, 'w) net
     \<Rightarrow> (('i, 'q, 'h, 'w, 'a) ListByServerResponse \<times> error option) \<times> ('q, 'w) net" where
  "nextPage c nl n =
     (case preparerForListByServerWithNextLink c nl of
        (req, Some e) \<Rightarrow>
          ((zeroResponse,
            Some (NewErrorWithError e ''configurations.ConfigurationsClient'' ''ListByServer''
                    ''Failure preparing request'')), n)
      | (req, None) \<Rightarrow>
          (case Client_Send c req n of
             ((h, Some e), n1) \<Rightarrow>
               ((zeroResponse\<lparr>HttpResponse := h\<rparr>,
                 Some (NewErrorWithError e ''configurations.ConfigurationsClient''
                         ''ListByServer'' ''Failure sending request'')), n1)
           | ((h, None), n1) \<Rightarrow>
               (case responderForListByServer c h of
                  (result, Some e) \<Rightarrow>
                    ((result,
                      Some (NewErrorWithError e ''configurations.ConfigurationsClient''
                              ''ListByServer'' ''Failure responding to request'')), n1)
                | (result, None) \<Rightarrow> ((result, None), n1))))"

definition ListByServer ::
  "('i, 'q, 'h, 'w, 'a) ConfigurationsClient \<Rightarrow> 'i \<Rightarrow> ('q, 'w) net
     \<Rightarrow> (('i, 'q, 'h, 'w, 'a) ListByServerResponse \<times> error option) \<times> ('q, 'w) net" where
  "ListByServer c ident n =
     (case preparerForListByServer c ident of
        (req, Some e) \<Rightarrow>
          ((zeroResponse,
            Some (NewErrorWithError e ''configurations.ConfigurationsClient'' ''ListByServer''
                    ''Failure preparing request'')), n)
      | (req, None) \<Rightarrow>
          (case Client_Send c req n of
             ((h, Some e), n1) \<Rightarrow>
               ((zeroResponse\<lparr>HttpResponse := h\<rparr>,
                 Some (NewErrorWithError e ''configurations.ConfigurationsClient''
                         ''ListByServer'' ''Failure sending request'')), n1)
           | ((h, None), n1) \<Rightarrow>
               (case responderForListByServer c h of
                  (resp, Some e) \<Rightarrow>
                    ((resp,
                      Some (NewErrorWithError e ''configurations.ConfigurationsClient''
                              ''ListByServer'' ''Failure responding to request'')), n1)
                | (resp, None) \<Rightarrow> ((resp, None), n1))))"

text \<open>
  \<open>LoadMore\<close>: without a next link it returns the zero response and an error, touching
  nothing; otherwise it calls \<open>nextPageFunc\<close>, which panics when that function is nil.
\<close>

definition LoadMore ::
  "('i, 'q, 'h, 'w, 'a) ListByServerResponse \<Rightarrow> ('q, 'w) net
     \<Rightarrow> (('i, 'q, 'h, 'w, 'a) ListByServerResponse \<times> error option) outcome \<times> ('q, 'w) net"
  where
  "LoadMore r n =
     (if \<not> HasMore r then (Return (zeroResponse, Some (Errorf ''no more pages returned'' [])), n)
      else case nextLink r of
             None \<Rightarrow> (Panic, n)
           | Some nl \<Rightarrow>
               (case nextPageFunc r of
                  None \<Rightarrow> (Panic, n)
                | Some c \<Rightarrow> (case nextPage c nl n of (res, n1) \<Rightarrow> (Return res, n1))))"

text \<open>
  The body shared by the two \<open>if page.Model != nil { for ... }\<close> blocks: every value of the
  page that the predicate matches is appended to \<open>items\<close>, in the page's order.
\<close>

definition appendMatching :: "('a \<Rightarrow> bool) \<Rightarrow> 'a list option \<Rightarrow> 'a list \<Rightarrow> 'a list" where
  "appendMatching matches model items =
     (case model of
        None \<Rightarrow> items
      | Some vs \<Rightarrow> foldl (\<lambda>acc v. if matches v then acc @ [v] else acc) items vs)"

text \<open>
  The loop \<open>for page.HasMore() { ... }\<close> of \<open>ListByServerCompleteMatchingPredicate\<close>.  The
  server decides how long it runs, so it is a partial function: \<open>None\<close> is a loop that never
  ends.
\<close>

partial_function (option) loadPages ::
  "('a \<Rightarrow> bool) \<Rightarrow> ('i, 'q, 'h, 'w, 'a) ListByServerResponse \<Rightarrow> 'a list \<Rightarrow> ('q, 'w) net
     \<Rightarrow> (('a ListByServerCompleteResult \<times> error option) outcome \<times> ('q, 'w) net) option"
  where
  "loadPages matches page items n =
     (if HasMore page then
        (case LoadMore page n of
           (Panic, n1) \<Rightarrow> Some (Panic, n1)
         | (Return (page', Some e), n1) \<Rightarrow>
             Some (Return (zeroCompleteResult,
                           Some (Errorf ''loading the next page: %+v'' [ArgE e])), n1)
         | (Return (page', None), n1) \<Rightarrow>
             loadPages matches page' (appendMatching matches (Model page') items) n1)
      else Some (Return (\<lparr>Items = items\<rparr>, None), n))"

definition ListByServerCompleteMatchingPredicate ::
  "('i, 'q, 'h, 'w, 'a) ConfigurationsClient \<Rightarrow> 'i \<Rightarrow> ('a \<Rightarrow> bool) \<Rightarrow> ('q, 'w) net
     \<Rightarrow> (('a ListByServerCompleteResult \<times> error option) outcome \<times> ('q, 'w) net) option"
  where
  "ListByServerCompleteMatchingPredicate c ident matches n =
     (let items = []
      in case ListByServer c ident n of
           ((page, Some e), n1) \<Rightarrow>
             Some (Return (zeroCompleteResult,
                           Some (Errorf ''loading the initial page: %+v'' [ArgE e])), n1)
         | ((page, None), n1) \<Rightarrow>
             loadPages matches page (appendMatching matches (Model page) items) n1)"

text \<open>
  Modelled from the spec: the zero-valued \<open>ServerConfigurationPredicate\<close>, whose \<open>Matches\<close>
  method is not among the source files, is the trivially true predicate.
\<close>

definition ServerConfigurationPredicate_zero :: "'a \<Rightarrow> bool" where
  "ServerConfigurationPredicate_zero v = True"

definition ListByServerComplete ::
  "('i, 'q, 'h, 'w, 'a) ConfigurationsClient \<Rightarrow> 'i \<Rightarrow> ('q, 'w) net
     \<Rightarrow> (('a ListByServerCompleteResult \<times> error option) outcome \<times> ('q, 'w) net) option"
  where
  "ListByServerComplete c ident n =
     ListByServerCompleteMatchingPredicate c ident ServerConfigurationPredicate_zero n"

subsection \<open>The pages a completion visits, and servers that hold a page sequence\<close>

text \<open>
  \<open>nthPage c ident k n\<close> is the \<open>k\<close>-th fetch of the completion started on network \<open>n\<close>:
  fetch 0 is \<open>ListByServer\<close>, fetch \<open>k + 1\<close> is \<open>LoadMore\<close> on the page of fetch \<open>k\<close>, made
  only when that fetch returned without error and its page has more.  \<open>None\<close>: the
  completion makes no such fetch.
\<close>

fun nthPage ::
  "('i, 'q, 'h, 'w, 'a) ConfigurationsClient \<Rightarrow> 'i \<Rightarrow> nat \<Rightarrow> ('q, 'w) net
     \<Rightarrow> ((('i, 'q, 'h, 'w, 'a) ListByServerResponse \<times> error option) outcome
          \<times> ('q, 'w) net) option" where
  "nthPage c ident 0 n = (case ListByServer c ident n of (res, n1) \<Rightarrow> Some (Return res, n1))"
| "nthPage c ident (Suc k) n =
     (case nthPage c ident k n of
        Some (Return (page, None), n1) \<Rightarrow> if HasMore page then Some (LoadMore page n1) else None
      | _ \<Rightarrow> None)"

text \<open>
  \<open>serves c req w pages\<close>: from remote state \<open>w\<close>, request \<open>req\<close> is answered without
  error by a body holding the first of \<open>pages\<close>; that body carries a next link exactly when
  further pages remain, and the request prepared from the link is answered by the rest.
\<close>

fun serves ::
  "('i, 'q, 'h, 'w, 'a) ConfigurationsClient \<Rightarrow> 'q option \<Rightarrow> 'w \<Rightarrow> 'a list list \<Rightarrow> bool" where
  "serves c req w [] = False"
| "serves c req w (p # ps) =
     (case Send c req w of
        ((h, Some e), w') \<Rightarrow> False
      | ((h, None), w') \<Rightarrow>
          (case Respond c h of
             (body, Some e) \<Rightarrow> False
           | (body, None) \<Rightarrow>
               Values body = p \<and>
               (case NextLink body of
                  None \<Rightarrow> ps = []
                | Some nl \<Rightarrow>
                    ps \<noteq> [] \<and>
                    (case preparerForListByServerWithNextLink c nl of
                       (req', Some e) \<Rightarrow> False
                     | (req', None) \<Rightarrow> serves c req' w' ps))))"

definition servesFrom ::
  "('i, 'q, 'h, 'w, 'a) ConfigurationsClient \<Rightarrow> 'i \<Rightarrow> 'w \<Rightarrow> 'a list list \<Rightarrow> bool" where
  "servesFrom c ident w pages =
     (case preparerForListByServer c ident of
        (req, Some e) \<Rightarrow> False
      | (req, None) \<Rightarrow> serves c req w pages)"

text \<open>
  The response and the remote state that result from sending \<open>req\<close> in state \<open>w\<close> and
  handing the answer to \<open>responderForListByServer\<close>.
\<close>

definition pageOf ::
  "('i, 'q, 'h, 'w, 'a) ConfigurationsClient \<Rightarrow> 'q option \<Rightarrow> 'w
     \<Rightarrow> ('i, 'q, 'h, 'w, 'a) ListByServerResponse" where
  "pageOf c req w = fst (responderForListByServer c (fst (fst (Send c req w))))"

definition worldAfter :: "('i, 'q, 'h, 'w, 'a) ConfigurationsClient \<Rightarrow> 'q option \<Rightarrow> 'w \<Rightarrow> 'w" where
  "worldAfter c req w = snd (Send c req w)"

text \<open>
  Filtering the items of a finished completion by a predicate; panics, errors and the
  network stay as they are.
\<close>

definition filterOutcome ::
  "('a \<Rightarrow> bool) \<Rightarrow> ('a ListByServerCompleteResult \<times> error option) outcome \<times> ('q, 'w) net
     \<Rightarrow> ('a ListByServerCompleteResult \<times> error option) outcome \<times> ('q, 'w) net" where
  "filterOutcome p r =
     (case r of
        (Panic, n') \<Rightarrow> (Panic, n')
      | (Return (res, err), n') \<Rightarrow> (Return (\<lparr>Items = filter p (Items res)\<rparr>, err), n'))"

text \<open>
  A concrete client for the examples.  A request is its path, an answer echoes the request,
  the remote state counts the requests.  Server \<open>/a\<close> holds the pages \<open>[1, 2]\<close> and \<open>[3]\<close>;
  server \<open>/b\<close> holds \<open>[4]\<close> and a link to a page that answers with status 500.
\<close>

definition demoClient :: "(string, string, string, nat, nat) ConfigurationsClient" where
  "demoClient =
     \<lparr>baseUri = ''https://management.azure.com'',
      Send = (\<lambda>req w. ((req, None), Suc w)),
      defaultApiVersion = ''2017-12-01'',
      ID = (\<lambda>i. i),
      Prepare = (\<lambda>p. (Some (Path p), None)),
      url_Parse = (\<lambda>s. (\<lparr>uPath = s, uQuery = Map.empty\<rparr>, None)),
      Encode = (\<lambda>k v. v),
      Respond = (\<lambda>h.
        if h = Some ''/a/configurations'' then (\<lparr>Values = [1, 2], NextLink = Some ''/a/2''\<rparr>, None)
        else if h = Some ''/a/2'' then (\<lparr>Values = [3], NextLink = None\<rparr>, None)
        else if h = Some ''/b/configurations'' then (\<lparr>Values = [4], NextLink = Some ''/b/2''\<rparr>, None)
        else (\<lparr>Values = [], NextLink = None\<rparr>, Some (External ''unexpected status 500'')))\<rparr>"

definition failedSecondFetch :: error where
  "failedSecondFetch = NewErrorWithError (External ''unexpected status 500'')
      ''configurations.ConfigurationsClient'' ''ListByServer'' ''Failure responding to request''"

section \<open>Resource ID codec (package parse, Logz sub-account tag rule)\<close>

text \<open>
  Only the tests of this codec are among the source files; the struct, its constructor, its
  formatter and its parser are modelled from the specification and from what the tests call
  and compare.
\<close>

record LogzSubAccountTagRuleId =
  SubscriptionId :: string
  ResourceGroup :: string
  MonitorName :: string
  AccountName :: string
  TagRuleName :: string

text \<open>
  Modelled from the spec: the constructor \<open>NewLogzSubAccountTagRuleID\<close>, missing from the
  source files, stores its five arguments in the five fields the test reads back.
\<close>

definition NewLogzSubAccountTagRuleID ::
  "string \<Rightarrow> string \<Rightarrow> string \<Rightarrow> string \<Rightarrow> string \<Rightarrow> LogzSubAccountTagRuleId" where
  "NewLogzSubAccountTagRuleID subscriptionId resourceGroup monitorName accountName tagRuleName =
     \<lparr>SubscriptionId = subscriptionId, ResourceGroup = resourceGroup, MonitorName = monitorName,
      AccountName = accountName, TagRuleName = tagRuleName\<rparr>"

text \<open>
  Modelled from the spec: the formatter \<open>LogzSubAccountTagRuleId.ID\<close>, missing from the
  source files, produces a slash-delimited path with fixed, case-sensitive literal segments,
  laid out as in the specification's example.
\<close>

definition LogzSubAccountTagRuleId_ID :: "LogzSubAccountTagRuleId \<Rightarrow> string" where
  "LogzSubAccountTagRuleId_ID x =
     ''/subscriptions/'' @ SubscriptionId x @ ''/resourceGroups/'' @ ResourceGroup x
       @ ''/providers/Microsoft.Logz/monitors/'' @ MonitorName x
       @ ''/accounts/'' @ AccountName x @ ''/tagRules/'' @ TagRuleName x"

text \<open>Splitting at a delimiter, as \<open>strings.Split\<close> does: \<open>n\<close> delimiters give \<open>n + 1\<close> pieces.\<close>

fun splitOn :: "char \<Rightarrow> string \<Rightarrow> string list" where
  "splitOn d [] = [[]]"
| "splitOn d (x # xs) =
     (if x = d then [] # splitOn d xs
      else case splitOn d xs of [] \<Rightarrow> [[x]] | s # ss \<Rightarrow> (x # s) # ss)"

text \<open>A path layout: literal segments that must match exactly, and positions of values.\<close>

datatype segment = Lit string | Val

definition logzSubAccountTagRuleSegments :: "segment list" where
  "logzSubAccountTagRuleSegments =
     [Lit '''', Lit ''subscriptions'', Val, Lit ''resourceGroups'', Val,
      Lit ''providers'', Lit ''Microsoft.Logz'', Lit ''monitors'', Val,
      Lit ''accounts'', Val, Lit ''tagRules'', Val]"

text \<open>
  Matching the pieces of an input against a layout, left to right.  A literal is compared
  as it is, without normalisation; a value must not be empty.  The result is the list of
  values, or the error for the first segment that is missing or different.
\<close>

fun matchSegments :: "segment list \<Rightarrow> string list \<Rightarrow> error + string list" where
  "matchSegments [] [] = Inr []"
| "matchSegments [] (s # ss) = Inl (Errorf ''ID has an unexpected segment %q'' [ArgS s])"
| "matchSegments (Lit l # ts) [] = Inl (Errorf ''ID was missing the %q element'' [ArgS l])"
| "matchSegments (Lit l # ts) (s # ss) =
     (if s = l then matchSegments ts ss
      else Inl (Errorf ''ID was missing the %q element'' [ArgS l]))"
| "matchSegments (Val # ts) [] = Inl (Errorf ''ID was missing a value'' [])"
| "matchSegments (Val # ts) (s # ss) =
     (if s = [] then Inl (Errorf ''ID was missing a value'' [])
      else case matchSegments ts ss of Inl e \<Rightarrow> Inl e | Inr vs \<Rightarrow> Inr (s # vs))"

text \<open>
  Modelled from the spec: the parser \<open>LogzSubAccountTagRuleID\<close>, missing from the source
  files, is the inverse of formatting; it fails with a descriptive error if any required
  segment or its value is missing and on case mismatches, and normalises nothing.
\<close>

definition LogzSubAccountTagRuleID :: "string \<Rightarrow> error + LogzSubAccountTagRuleId" where
  "LogzSubAccountTagRuleID input =
     (case matchSegments logzSubAccountTagRuleSegments (splitOn CHR ''/'' input) of
        Inl e \<Rightarrow> Inl e
      | Inr vs \<Rightarrow>
          (case vs of
             [s, rg, m, a, t] \<Rightarrow> Inr (NewLogzSubAccountTagRuleID s rg m a t)
           | _ \<Rightarrow> Inl (Errorf ''ID has an unexpected number of values'' [])))"

text \<open>
  A valid component is not empty and holds no slash; a valid component tuple has five of
  them.
\<close>

definition validSegment :: "string \<Rightarrow> bool" where
  "validSegment s = (s \<noteq> [] \<and> CHR ''/'' \<notin> set s)"

definition validLogzSubAccountTagRuleId :: "LogzSubAccountTagRuleId \<Rightarrow> bool" where
  "validLogzSubAccountTagRuleId x =
     (validSegment (SubscriptionId x) \<and> validSegment (ResourceGroup x)
      \<and> validSegment (MonitorName x) \<and> validSegment (AccountName x)
      \<and> validSegment (TagRuleName x))"

text \<open>Upper-casing of ASCII letters; every other character stays.\<close>

definition toUpperChar :: "char \<Rightarrow> char" where
  "toUpperChar c =
     (case map_of (zip ''abcdefghijklmnopqrstuvwxyz'' ''ABCDEFGHIJKLMNOPQRSTUVWXYZ'') c of
        None \<Rightarrow> c
      | Some u \<Rightarrow> u)"

definition toUpper :: "string \<Rightarrow> string" where
  "toUpper s = map toUpperChar s"

text \<open>The identifier of the tests, and the part of an identifier before its last value.\<close>

definition exampleId :: LogzSubAccountTagRuleId where
  "exampleId = NewLogzSubAccountTagRuleID ''12345678-1234-9876-4563-123456789012''
      ''resourceGroup1'' ''monitor1'' ''subAccount1'' ''ruleSet1''"

definition prefixBeforeTagRuleName :: "LogzSubAccountTagRuleId \<Rightarrow> string" where
  "prefixBeforeTagRuleName x =
     ''/subscriptions/'' @ SubscriptionId x @ ''/resourceGroups/'' @ ResourceGroup x
       @ ''/providers/Microsoft.Logz/monitors/'' @ MonitorName x
       @ ''/accounts/'' @ AccountName x @ ''/tagRules''"

definition nslash :: "string \<Rightarrow> nat" where
  "nslash s = length (filter (\<lambda>c. c = CHR ''/'') s)"

text \<open>
  Joining pieces with a delimiter (the inverse of \<open>splitOn\<close>), and the pieces a layout
  prescribes for given values.
\<close>

fun joinWith :: "char \<Rightarrow> string list \<Rightarrow> string" where
  "joinWith d [] = []"
| "joinWith d [s] = s"
| "joinWith d (s # t # ss) = s @ d # joinWith d (t # ss)"

fun fill :: "segment list \<Rightarrow> string list \<Rightarrow> string list" where
  "fill [] vs = []"
| "fill (Lit l # ts) vs = l # fill ts vs"
| "fill (Val # ts) [] = []"
| "fill (Val # ts) (v # vs) = v # fill ts vs"

section \<open>Spring Cloud app Redis association resource (package springcloud)\<close>

text \<open>
  The two identifier structs of package \<open>parse\<close> and their constructors are outside the
  source files; their fields and argument order are taken from the handler's reads and calls.
  Where two structs of the program share a field name, the fields carry a prefix here.
\<close>

record SpringCloudAppId =
  appSubscriptionId :: string
  appResourceGroup :: string
  appSpringName :: string
  appAppName :: string

record SpringCloudAppAssociationId =
  assocSubscriptionId :: string
  assocResourceGroup :: string
  assocSpringName :: string
  assocAppName :: string
  assocBindingName :: string

definition NewSpringCloudAppID :: "string \<Rightarrow> string \<Rightarrow> string \<Rightarrow> string \<Rightarrow> SpringCloudAppId" where
  "NewSpringCloudAppID subscriptionId resourceGroup springName appName =
     \<lparr>appSubscriptionId = subscriptionId, appResourceGroup = resourceGroup,
      appSpringName = springName, appAppName = appName\<rparr>"

definition NewSpringCloudAppAssociationID ::
  "string \<Rightarrow> string \<Rightarrow> string \<Rightarrow> string \<Rightarrow> string \<Rightarrow> SpringCloudAppAssociationId" where
  "NewSpringCloudAppAssociationID subscriptionId resourceGroup springName appName bindingName =
     \<lparr>assocSubscriptionId = subscriptionId, assocResourceGroup = resourceGroup,
      assocSpringName = springName, assocAppName = appName, assocBindingName = bindingName\<rparr>"

text \<open>
  A value of \<open>map[string]interface{}\<close> as the handlers use it, the binding resource of the
  SDK with the fields the handlers touch, and the response it embeds (an abstract \<open>'r\<close>).
\<close>

datatype iface = IBool bool | IString string

record BindingResourceProperties =
  BindingParameters :: "string \<rightharpoonup> iface"
  Key :: "string option"
  ResourceID :: "string option"

record 'r BindingResource =
  Response :: 'r
  Properties :: "BindingResourceProperties option"

text \<open>
  \<open>pluginsdk.ResourceData\<close>: the tracked ID, the new-resource flag and the attributes.
  \<open>d.Get(k).(string)\<close> and \<open>d.Get(k).(bool)\<close> read a schema-typed attribute; when it
  is unset the SDK returns the schema's default, or the zero value where the schema has
  none (no string attribute of this resource has a default).
\<close>

datatype attr = AString string | AStringPtr "string option" | ABool bool

record ResourceData =
  ResourceData_Id :: string
  IsNewResource :: bool
  Attrs :: "string \<rightharpoonup> attr"

definition getString :: "ResourceData \<Rightarrow> string \<Rightarrow> string" where
  "getString d k = (case Attrs d k of Some (AString s) \<Rightarrow> s | _ \<Rightarrow> [])"

text \<open>The defaults of the resource's schema: \<open>ssl_enabled\<close> is optional with default true.\<close>

definition schemaDefault :: "string \<rightharpoonup> attr" where
  "schemaDefault = [''ssl_enabled'' \<mapsto> ABool True]"

definition getBool :: "ResourceData \<Rightarrow> string \<Rightarrow> bool" where
  "getBool d k =
     (case Attrs d k of
        Some (ABool b) \<Rightarrow> b
      | _ \<Rightarrow> (case schemaDefault k of Some (ABool b) \<Rightarrow> b | _ \<Rightarrow> False))"

definition ResourceData_Set :: "ResourceData \<Rightarrow> string \<Rightarrow> attr \<Rightarrow> ResourceData" where
  "ResourceData_Set d k v = d\<lparr>Attrs := (Attrs d)(k \<mapsto> v)\<rparr>"

definition ResourceData_SetId :: "ResourceData \<Rightarrow> string \<Rightarrow> ResourceData" where
  "ResourceData_SetId d v = d\<lparr>ResourceData_Id := v\<rparr>"

text \<open>
  The calls issued to the bindings client, in order, the collaborators of the handlers that
  are outside the source files (the SDK client and its future, \<open>utils.ResponseWasNotFound\<close>,
  the ID parsers and formatters), and the remote side: the calls made so far and the remote
  state \<open>'w\<close> the client acts on.
\<close>

datatype call =
    GetCall string string string string
  | CreateOrUpdateCall string string string string BindingResourceProperties
  | WaitForCompletionCall
  | DeleteCall string string string string

record ('r, 'f, 'w) BindingsMeta =
  Get :: "string \<Rightarrow> string \<Rightarrow> string \<Rightarrow> string \<Rightarrow> 'w \<Rightarrow> ('r BindingResource \<times> error option) \<times> 'w"
  CreateOrUpdate :: "string \<Rightarrow> string \<Rightarrow> string \<Rightarrow> string \<Rightarrow> BindingResourceProperties option
     \<Rightarrow> 'w \<Rightarrow> ('f \<times> error option) \<times> 'w"
  Delete :: "string \<Rightarrow> string \<Rightarrow> string \<Rightarrow> string \<Rightarrow> 'w \<Rightarrow> ('f \<times> error option) \<times> 'w"
  WaitForCompletionRef :: "'f \<Rightarrow> 'w \<Rightarrow> error option \<times> 'w"
  ResponseWasNotFound :: "'r \<Rightarrow> bool"
  SpringCloudAppID :: "string \<Rightarrow> error + SpringCloudAppId"
  SpringCloudAppAssociationID :: "string \<Rightarrow> error + SpringCloudAppAssociationId"
  AppId_ID :: "SpringCloudAppId \<Rightarrow> string"
  AssociationId_ID :: "SpringCloudAppAssociationId \<Rightarrow> string"
  AssociationId_String :: "SpringCloudAppAssociationId \<Rightarrow> string"

type_synonym 'w remote = "call list \<times> 'w"

definition client_Get ::
  "('r, 'f, 'w) BindingsMeta \<Rightarrow> SpringCloudAppAssociationId \<Rightarrow> 'w remote
     \<Rightarrow> ('r BindingResource \<times> error option) \<times> 'w remote" where
  "client_Get meta ident n =
     (case Get meta (assocResourceGroup ident) (assocSpringName ident) (assocAppName ident)
             (assocBindingName ident) (snd n) of
        (r, w') \<Rightarrow>
          (r, (fst n @ [GetCall (assocResourceGroup ident) (assocSpringName ident)
                          (assocAppName ident) (assocBindingName ident)], w')))"

definition client_CreateOrUpdate ::
  "('r, 'f, 'w) BindingsMeta \<Rightarrow> SpringCloudAppAssociationId \<Rightarrow> BindingResourceProperties
     \<Rightarrow> 'w remote \<Rightarrow> ('f \<times> error option) \<times> 'w remote" where
  "client_CreateOrUpdate meta ident props n =
     (case CreateOrUpdate meta (assocResourceGroup ident) (assocSpringName ident)
             (assocAppName ident) (assocBindingName ident) (Some props) (snd n) of
        (r, w') \<Rightarrow>
          (r, (fst n @ [CreateOrUpdateCall (assocResourceGroup ident) (assocSpringName ident)
                          (assocAppName ident) (assocBindingName ident) props], w')))"

definition client_Delete ::
  "('r, 'f, 'w) BindingsMeta \<Rightarrow> SpringCloudAppAssociationId \<Rightarrow> 'w remote
     \<Rightarrow> ('f \<times> error option) \<times> 'w remote" where
  "client_Delete meta ident n =
     (case Delete meta (assocResourceGroup ident) (assocSpringName ident) (assocAppName ident)
             (assocBindingName ident) (snd n) of
        (r, w') \<Rightarrow>
          (r, (fst n @ [DeleteCall (assocResourceGroup ident) (assocSpringName ident)
                          (assocAppName ident) (assocBindingName ident)], w')))"

definition future_WaitForCompletionRef ::
  "('r, 'f, 'w) BindingsMeta \<Rightarrow> 'f \<Rightarrow> 'w remote \<Rightarrow> error option \<times> 'w remote" where
  "future_WaitForCompletionRef meta future n =
     (case WaitForCompletionRef meta future (snd n) of
        (r, w') \<Rightarrow> (r, (fst n @ [WaitForCompletionCall], w')))"

text \<open>The package constant, and \<open>strings.EqualFold\<close> on ASCII text.\<close>

definition springCloudAppRedisAssociationKeySSL :: string where
  "springCloudAppRedisAssociationKeySSL = ''useSsl''"

definition EqualFold :: "string \<Rightarrow> string \<Rightarrow> bool" where
  "EqualFold s t = (toUpper s = toUpper t)"

text \<open>
  The handlers return the error (or panic, for the failed type assertion \<open>v.(string)\<close> of
  the read), the resource data and the remote side.
\<close>

definition resourceSpringCloudAppRedisAssociationRead ::
  "('r, 'f, 'w) BindingsMeta \<Rightarrow> ResourceData \<Rightarrow> 'w remote
     \<Rightarrow> error option outcome \<times> ResourceData \<times> 'w remote" where
  "resourceSpringCloudAppRedisAssociationRead meta d n =
     (case SpringCloudAppAssociationID meta (ResourceData_Id d) of
        Inl err \<Rightarrow> (Return (Some err), d, n)
      | Inr ident \<Rightarrow>
          (case client_Get meta ident n of
             ((resp, Some err), n1) \<Rightarrow>
               if ResponseWasNotFound meta (Response resp)
               then (Return None, ResourceData_SetId d [], n1)
               else (Return (Some (Errorf ''reading %s: %+v''
                               [ArgS (AssociationId_String meta ident), ArgE err])), d, n1)
           | ((resp, None), n1) \<Rightarrow>
               (let d1 = ResourceData_Set d ''name'' (AString (assocBindingName ident));
                    d2 = ResourceData_Set d1 ''spring_cloud_app_id''
                           (AString (AppId_ID meta
                              (NewSpringCloudAppID (assocSubscriptionId ident)
                                 (assocResourceGroup ident) (assocSpringName ident)
                                 (assocAppName ident))))
                in case Properties resp of
                     None \<Rightarrow> (Return None, d2, n1)
                   | Some props \<Rightarrow>
                       (let d3 = ResourceData_Set d2 ''redis_cache_id'' (AStringPtr (ResourceID props))
                        in case BindingParameters props springCloudAppRedisAssociationKeySSL of
                             None \<Rightarrow>
                               (Return None,
                                ResourceData_Set d3 ''ssl_enabled'' (ABool (EqualFold ''false'' ''true'')), n1)
                           | Some (IString v) \<Rightarrow>
                               (Return None,
                                ResourceData_Set d3 ''ssl_enabled'' (ABool (EqualFold v ''true'')), n1)
                           | Some (IBool b) \<Rightarrow> (Panic, d3, n1)))))"

definition resourceSpringCloudAppRedisAssociationCreateUpdate ::
  "('r, 'f, 'w) BindingsMeta \<Rightarrow> ResourceData \<Rightarrow> 'w remote
     \<Rightarrow> error option outcome \<times> ResourceData \<times> 'w remote" where
  "resourceSpringCloudAppRedisAssociationCreateUpdate meta d n =
     (case SpringCloudAppID meta (getString d ''spring_cloud_app_id'') of
        Inl err \<Rightarrow> (Return (Some err), d, n)
      | Inr appId \<Rightarrow>
          (let ident = NewSpringCloudAppAssociationID (appSubscriptionId appId)
                         (appResourceGroup appId) (appSpringName appId) (appAppName appId)
                         (getString d ''name'')
           in case (if IsNewResource d
                    then (case client_Get meta ident n of
                            ((existing, err), n1) \<Rightarrow>
                              (case (case err of
                                       None \<Rightarrow> None
                                     | Some e \<Rightarrow>
                                         if \<not> ResponseWasNotFound meta (Response existing)
                                         then Some (Errorf ''checking for present of existing %s: %+v''
                                                [ArgS (AssociationId_String meta ident), ArgE e])
                                         else None) of
                                 Some e' \<Rightarrow> (Some e', n1)
                               | None \<Rightarrow>
                                   if \<not> ResponseWasNotFound meta (Response existing)
                                   then (Some (ImportAsExistsError
                                            ''azurerm_spring_cloud_app_redis_association''
                                            (AssociationId_ID meta ident)), n1)
                                   else (None, n1)))
                    else (None, n)) of
                (Some e, n1) \<Rightarrow> (Return (Some e), d, n1)
              | (None, n1) \<Rightarrow>
                  (let bindingResource =
                         \<lparr>BindingParameters =
                            [springCloudAppRedisAssociationKeySSL \<mapsto> IBool (getBool d ''ssl_enabled'')],
                          Key = Some (getString d ''redis_access_key''),
                          ResourceID = Some (getString d ''redis_cache_id'')\<rparr>
                   in case client_CreateOrUpdate meta ident bindingResource n1 of
                        ((future, Some err), n2) \<Rightarrow>
                          (Return (Some (Errorf ''creating %s: %+v''
                                     [ArgS (AssociationId_String meta ident), ArgE err])), d, n2)
                      | ((future, None), n2) \<Rightarrow>
                          (case future_WaitForCompletionRef meta future n2 of
                             (Some err, n3) \<Rightarrow>
                               (Return (Some (Errorf ''waiting for creation/update of %q: %+v''
                                          [ArgS (AssociationId_String meta ident), ArgE err])), d, n3)
                           | (None, n3) \<Rightarrow>
                               resourceSpringCloudAppRedisAssociationRead meta
                                 (ResourceData_SetId d (AssociationId_ID meta ident)) n3))))"

definition resourceSpringCloudAppRedisAssociationDelete ::
  "('r, 'f, 'w) BindingsMeta \<Rightarrow> ResourceData \<Rightarrow> 'w remote
     \<Rightarrow> error option \<times> ResourceData \<times> 'w remote" where
  "resourceSpringCloudAppRedisAssociationDelete meta d n =
     (case SpringCloudAppAssociationID meta (ResourceData_Id d) of
        Inl err \<Rightarrow> (Some err, d, n)
      | Inr ident \<Rightarrow>
          (case client_Delete meta ident n of
             ((future, Some err), n1) \<Rightarrow>
               (Some (Errorf ''deleting %s: %+v''
                        [ArgS (AssociationId_String meta ident), ArgE err]), d, n1)
           | ((future, None), n1) \<Rightarrow>
               (case future_WaitForCompletionRef meta future n1 of
                  (Some err, n2) \<Rightarrow>
                    (Some (Errorf ''waiting for deletion of %q: %+v''
                             [ArgS (AssociationId_String meta ident), ArgE err]), d, n2)
                | (None, n2) \<Rightarrow> (None, d, n2))))"

section \<open>Stream Analytics output table resource (package streamanalytics)\<close>

text \<open>
  The model struct, the output identifier (outside the source files; fields as the handler
  reads them), and the part of \<open>streamanalytics.Output\<close> the handler fills in.
\<close>

record OutputTableResourceModel =
  mName :: string
  mStreamAnalyticsJob :: string
  mResourceGroup :: string
  mStorageAccount :: string
  mStorageAccountKey :: string
  mTable :: string
  mPartitionKey :: string
  mRowKey :: string
  mBatchSize :: int

record OutputId =
  outSubscriptionId :: string
  outResourceGroup :: string
  outStreamingjobName :: string
  outName :: string

definition NewOutputID :: "string \<Rightarrow> string \<Rightarrow> string \<Rightarrow> string \<Rightarrow> OutputId" where
  "NewOutputID subscriptionId resourceGroup streamingjobName name =
     \<lparr>outSubscriptionId = subscriptionId, outResourceGroup = resourceGroup,
      outStreamingjobName = streamingjobName, outName = name\<rparr>"

record AzureTableOutputDataSourceProperties =
  dsAccountName :: "string option"
  dsAccountKey :: "string option"
  dsTable :: "string option"
  dsPartitionKey :: "string option"
  dsRowKey :: "string option"
  dsBatchSize :: "int option"

record Output =
  oName :: "string option"
  oDatasourceType :: string
  oDatasource :: AzureTableOutputDataSourceProperties

text \<open>
  The calls issued to the outputs client, and what \<open>sdk.ResourceMetaData\<close> supplies:
  the result of \<open>Decode\<close>, the account's subscription, the client, and the helpers outside
  the source files.  Of the output a call returns the handler reads only the embedded
  response, so the client functions return that response (an abstract \<open>'r\<close>).
  \<open>oDatasourceType\<close> holds the SDK constant \<open>TypeMicrosoftStorageTable\<close>.
\<close>

datatype outputCall =
    OutputGetCall string string string
  | OutputCreateOrReplaceCall Output string string string string string

record ('r, 'w) OutputsMeta =
  Decode :: "OutputTableResourceModel \<times> error option"
  AccountSubscriptionId :: string
  OutputsGet :: "string \<Rightarrow> string \<Rightarrow> string \<Rightarrow> 'w \<Rightarrow> ('r \<times> error option) \<times> 'w"
  OutputsCreateOrReplace ::
    "Output \<Rightarrow> string \<Rightarrow> string \<Rightarrow> string \<Rightarrow> string \<Rightarrow> string \<Rightarrow> 'w \<Rightarrow> ('r \<times> error option) \<times> 'w"
  OutputsResponseWasNotFound :: "'r \<Rightarrow> bool"
  OutputId_String :: "OutputId \<Rightarrow> string"
  OutputId_ID :: "OutputId \<Rightarrow> string"

type_synonym 'w outputsRemote = "outputCall list \<times> 'w"

definition OutputTableResource_ResourceType :: string where
  "OutputTableResource_ResourceType = ''azurerm_stream_analytics_output_table''"

definition outputs_Get ::
  "('r, 'w) OutputsMeta \<Rightarrow> OutputId \<Rightarrow> 'w outputsRemote \<Rightarrow> ('r \<times> error option) \<times> 'w outputsRemote"
  where
  "outputs_Get meta ident n =
     (case OutputsGet meta (outResourceGroup ident) (outStreamingjobName ident) (outName ident)
             (snd n) of
        (r, w') \<Rightarrow>
          (r, (fst n @ [OutputGetCall (outResourceGroup ident) (outStreamingjobName ident)
                          (outName ident)], w')))"

definition outputs_CreateOrReplace ::
  "('r, 'w) OutputsMeta \<Rightarrow> Output \<Rightarrow> OutputId \<Rightarrow> 'w outputsRemote
     \<Rightarrow> ('r \<times> error option) \<times> 'w outputsRemote" where
  "outputs_CreateOrReplace meta props ident n =
     (case OutputsCreateOrReplace meta props (outResourceGroup ident) (outStreamingjobName ident)
             (outName ident) [] [] (snd n) of
        (r, w') \<Rightarrow>
          (r, (fst n @ [OutputCreateOrReplaceCall props (outResourceGroup ident)
                          (outStreamingjobName ident) (outName ident) [] []], w')))"

text \<open>The tracked ID is threaded as a string; \<open>metadata.SetID\<close> replaces it.\<close>

definition OutputTableResource_Create ::
  "('r, 'w) OutputsMeta \<Rightarrow> string \<Rightarrow> 'w outputsRemote \<Rightarrow> error option \<times> string \<times> 'w outputsRemote"
  where
  "OutputTableResource_Create meta tracked n =
     (case Decode meta of
        (model, Some err) \<Rightarrow> (Some err, tracked, n)
      | (model, None) \<Rightarrow>
          (let subscriptionId = AccountSubscriptionId meta;
               ident = NewOutputID subscriptionId (mResourceGroup model)
                         (mStreamAnalyticsJob model) (mName model)
           in case outputs_Get meta ident n of
                ((existing, err), n1) \<Rightarrow>
                  (let afterProbe =
                         (if \<not> OutputsResponseWasNotFound meta existing
                          then (Some (ResourceRequiresImport OutputTableResource_ResourceType
                                        (OutputId_ID meta ident)), tracked, n1)
                          else
                            (let props =
                                   \<lparr>oName = Some (mName model),
                                    oDatasourceType = ''Microsoft.Storage/Table'',
                                    oDatasource =
                                      \<lparr>dsAccountName = Some (mStorageAccount model),
                                       dsAccountKey = Some (mStorageAccountKey model),
                                       dsTable = Some (mTable model),
                                       dsPartitionKey = Some (mPartitionKey model),
                                       dsRowKey = Some (mRowKey model),
                                       dsBatchSize = Some (mBatchSize model)\<rparr>\<rparr>
                             in case outputs_CreateOrReplace meta props ident n1 of
                                  ((r, Some e), n2) \<Rightarrow>
                                    (Some (Errorf ''creating %s: %+v''
                                             [ArgS (OutputId_String meta ident), ArgE e]),
                                     tracked, n2)
                                | ((r, None), n2) \<Rightarrow> (None, OutputId_ID meta ident, n2)))
                   in case err of
                        None \<Rightarrow> afterProbe
                      | Some e \<Rightarrow>
                          if \<not> OutputsResponseWasNotFound meta existing
                          then (Some (Errorf ''checking for presence of existing %s: %+v''
                                        [ArgS (OutputId_String meta ident), ArgE e]), tracked, n1)
                          else afterProbe)))"

section \<open>Concrete collaborators for the examples\<close>

text \<open>
  The binding of \<open>CreateUpdate\<close> and the properties of \<open>Create\<close>, named so that the
  calls they are sent with can be stated.
\<close>

definition createBinding :: "ResourceData \<Rightarrow> BindingResourceProperties" where
  "createBinding d =
     \<lparr>BindingParameters =
        [springCloudAppRedisAssociationKeySSL \<mapsto> IBool (getBool d ''ssl_enabled'')],
      Key = Some (getString d ''redis_access_key''),
      ResourceID = Some (getString d ''redis_cache_id'')\<rparr>"

definition createOutput :: "OutputTableResourceModel \<Rightarrow> Output" where
  "createOutput model =
     \<lparr>oName = Some (mName model),
      oDatasourceType = ''Microsoft.Storage/Table'',
      oDatasource =
        \<lparr>dsAccountName = Some (mStorageAccount model),
         dsAccountKey = Some (mStorageAccountKey model),
         dsTable = Some (mTable model),
         dsPartitionKey = Some (mPartitionKey model),
         dsRowKey = Some (mRowKey model),
         dsBatchSize = Some (mBatchSize model)\<rparr>\<rparr>"

text \<open>
  A bindings service whose remote state is a number: 1 the binding exists, 2 the service
  answers every probe with status 500, 3 creation is refused, 4 creation is accepted but
  its long-running operation fails, anything else the binding is absent.  Responses are
  their status codes.  Deleting an absent binding is answered with status 404.
\<close>

definition demoMeta :: "(nat, nat, nat) BindingsMeta" where
  "demoMeta =
     \<lparr>Get = (\<lambda>rg sp app b w.
        if w = 1 then
          ((\<lparr>Response = 200,
             Properties = Some \<lparr>BindingParameters = [''useSsl'' \<mapsto> IString ''true''],
                                 Key = None, ResourceID = Some ''redis1''\<rparr>\<rparr>, None), w)
        else if w = 2 then
          ((\<lparr>Response = 500, Properties = None\<rparr>, Some (External ''StatusCode=500'')), w)
        else ((\<lparr>Response = 404, Properties = None\<rparr>, Some (External ''StatusCode=404'')), w)),
      CreateOrUpdate = (\<lambda>rg sp app b props w.
        if w = 3 then ((7, Some (External ''StatusCode=409'')), w)
        else if w = 4 then ((8, None), w)
        else ((7, None), 1)),
      Delete = (\<lambda>rg sp app b w.
        if w = 1 then ((7, None), 0) else ((7, Some (External ''StatusCode=404'')), w)),
      WaitForCompletionRef = (\<lambda>f w.
        if f = 8 then (Some (External ''operation failed''), w) else (None, w)),
      ResponseWasNotFound = (\<lambda>r. r = 404),
      SpringCloudAppID = (\<lambda>s.
        if s = ''app1'' then Inr (NewSpringCloudAppID ''sub'' ''rg'' ''spring'' ''app'')
        else Inl (External ''parsing the app ID'')),
      SpringCloudAppAssociationID = (\<lambda>s.
        if s = ''assoc1''
        then Inr (NewSpringCloudAppAssociationID ''sub'' ''rg'' ''spring'' ''app'' ''bind'')
        else Inl (External ''parsing the association ID'')),
      AppId_ID = (\<lambda>i. ''app1''),
      AssociationId_ID = (\<lambda>i. ''assoc1''),
      AssociationId_String = (\<lambda>i. ''assoc1'')\<rparr>"

definition demoIdent :: SpringCloudAppAssociationId where
  "demoIdent = NewSpringCloudAppAssociationID ''sub'' ''rg'' ''spring'' ''app'' ''bind''"

definition demoNew :: ResourceData where
  "demoNew = \<lparr>ResourceData_Id = [], IsNewResource = True,
     Attrs = [''name'' \<mapsto> AString ''bind'', ''spring_cloud_app_id'' \<mapsto> AString ''app1'',
              ''redis_cache_id'' \<mapsto> AString ''redis1'', ''redis_access_key'' \<mapsto> AString ''key'',
              ''ssl_enabled'' \<mapsto> ABool True]\<rparr>"

definition demoTracked :: ResourceData where
  "demoTracked = demoNew\<lparr>ResourceData_Id := ''assoc1'', IsNewResource := False\<rparr>"

text \<open>An outputs service with the same remote states 1 and 2, and 3 for a refused creation.\<close>

definition demoModel :: OutputTableResourceModel where
  "demoModel = \<lparr>mName = ''out'', mStreamAnalyticsJob = ''job'', mResourceGroup = ''rg'',
                 mStorageAccount = ''acct'', mStorageAccountKey = ''key'', mTable = ''tbl'',
                 mPartitionKey = ''pk'', mRowKey = ''rk'', mBatchSize = 10\<rparr>"

definition demoOutputs :: "(nat, nat) OutputsMeta" where
  "demoOutputs =
     \<lparr>Decode = (demoModel, None),
      AccountSubscriptionId = ''sub'',
      OutputsGet = (\<lambda>rg job name w.
        if w = 1 then ((200, None), w)
        else if w = 2 then ((500, Some (External ''StatusCode=500'')), w)
        else ((404, Some (External ''StatusCode=404'')), w)),
      OutputsCreateOrReplace = (\<lambda>props rg job name ifMatch ifNoneMatch w.
        if w = 3 then ((409, Some (External ''StatusCode=409'')), w) else ((200, None), 1)),
      OutputsResponseWasNotFound = (\<lambda>r. r = 404),
      OutputId_String = (\<lambda>i. ''output1''),
      OutputId_ID = (\<lambda>i. ''output1'')\<rparr>"

definition demoOutputId :: OutputId where
  "demoOutputId = NewOutputID ''sub'' ''rg'' ''job'' ''out''"

section \<open>Properties of the paginated list client\<close>

lemmas demo_defs = demoClient_def preparerForListByServer_def preparerForListByServerWithNextLink_def
  servesFrom_def ListByServer_def Client_Send_def responderForListByServer_def HasMore_def
  LoadMore_def nextPage_def zeroResponse_def zeroCompleteResult_def

lemma foldl_append_matching:
  "foldl (\<lambda>acc v. if m v then acc @ [v] else acc) items vs = items @ filter m vs"
  by (induction vs arbitrary: items) auto

lemma appendMatching_eq:
  "appendMatching m model items = items @ filter m (case model of None \<Rightarrow> [] | Some vs \<Rightarrow> vs)"
  by (simp add: appendMatching_def foldl_append_matching split: option.splits)


lemma serves_ConsD:
  assumes "serves c req w (p # ps)"
  shows "\<exists>h w' body. Send c req w = ((h, None), w') \<and> Respond c h = (body, None) \<and> Values body = p
           \<and> (case NextLink body of None \<Rightarrow> ps = []
               | Some nl \<Rightarrow> ps \<noteq> [] \<and> (\<exists>req'. preparerForListByServerWithNextLink c nl = (req', None)
                                \<and> serves c req' w' ps))"
proof -
  obtain h e w' where s: "Send c req w = ((h, e), w')" by (metis prod.exhaust)
  obtain body e' where r: "Respond c h = (body, e')" by (metis prod.exhaust)
  from assms s have e: "e = None" by (cases e) simp_all
  from assms s r e have e': "e' = None" by (cases e') simp_all
  from assms s r e e' have v: "Values body = p" by simp
  show ?thesis
  proof (cases "NextLink body")
    case None
    with assms s r e e' v show ?thesis by simp
  next
    case (Some nl)
    obtain req' e2 where q: "preparerForListByServerWithNextLink c nl = (req', e2)" by (metis prod.exhaust)
    from assms s r e e' Some q have "ps \<noteq> [] \<and> e2 = None \<and> serves c req' w' ps"
      by (cases e2) simp_all
    with s r e e' v Some q show ?thesis by simp
  qed
qed

lemma serves_Cons:
  assumes "serves c req w (p # ps)"
  shows "snd (fst (Send c req w)) = None"
    and "snd (Respond c (fst (fst (Send c req w)))) = None"
    and "Values (fst (Respond c (fst (fst (Send c req w))))) = p"
    and "(NextLink (fst (Respond c (fst (fst (Send c req w))))) = None) = (ps = [])"
  using serves_ConsD[OF assms] by (auto split: option.splits)

lemma serves_next:
  assumes "serves c req w (p # p' # ps)"
  shows "\<exists>nl req'. NextLink (fst (Respond c (fst (fst (Send c req w))))) = Some nl
         \<and> preparerForListByServerWithNextLink c nl = (req', None)
         \<and> serves c req' (snd (Send c req w)) (p' # ps)"
  using serves_ConsD[OF assms] by (auto split: option.splits)

lemma nextPage_serves:
  assumes "preparerForListByServerWithNextLink c nl = (req, None)" "serves c req w (p # ps)"
  shows "nextPage c nl (lg, w) = ((pageOf c req w, None), (lg @ [req], worldAfter c req w))"
  using serves_ConsD[OF assms(2)] assms(1)
  by (auto simp: nextPage_def Client_Send_def pageOf_def worldAfter_def responderForListByServer_def)

lemma loadPages_serves:
  "serves c req w (p # ps) \<Longrightarrow>
   \<exists>n'. loadPages m (pageOf c req w) items (lg, worldAfter c req w)
      = Some (Return (\<lparr>Items = items @ filter m (concat ps)\<rparr>, None), n')"
proof (induction ps arbitrary: req w p items lg)
  case Nil
  from serves_Cons(4)[OF Nil] show ?case
    by (subst loadPages.simps) (auto simp: HasMore_def pageOf_def responderForListByServer_def split: prod.splits)
next
  case (Cons p' ps)
  from serves_next[OF Cons.prems] obtain nl req' where
    nl: "NextLink (fst (Respond c (fst (fst (Send c req w))))) = Some nl"
    and pr: "preparerForListByServerWithNextLink c nl = (req', None)"
    and sv: "serves c req' (worldAfter c req w) (p' # ps)" by (auto simp: worldAfter_def)
  have hm: "HasMore (pageOf c req w)" "nextLink (pageOf c req w) = Some nl" "nextPageFunc (pageOf c req w) = Some c"
    using nl by (auto simp: HasMore_def pageOf_def responderForListByServer_def split: prod.splits)
  have lm: "LoadMore (pageOf c req w) (lg, worldAfter c req w)
     = (Return (pageOf c req' (worldAfter c req w), None), (lg @ [req'], worldAfter c req' (worldAfter c req w)))"
    using hm nextPage_serves[OF pr sv] by (simp add: LoadMore_def)
  have md: "Model (pageOf c req' (worldAfter c req w)) = Some p'"
    using serves_Cons(3)[OF sv] by (auto simp: pageOf_def responderForListByServer_def split: prod.splits)
  from Cons.IH[OF sv, of "items @ filter m p'" "lg @ [req']"] obtain n' where
    "loadPages m (pageOf c req' (worldAfter c req w)) (items @ filter m p') (lg @ [req'], worldAfter c req' (worldAfter c req w)) =
       Some (Return (\<lparr>Items = (items @ filter m p') @ filter m (concat ps)\<rparr>, None), n')" by blast
  then show ?case
    by (subst loadPages.simps) (simp add: hm lm md appendMatching_eq)
qed


lemma ListByServer_serves:
  assumes "preparerForListByServer c ident = (req, None)" "serves c req w (p # ps)"
  shows "ListByServer c ident (lg, w) = ((pageOf c req w, None), (lg @ [req], worldAfter c req w))"
  using serves_ConsD[OF assms(2)] assms(1)
  by (auto simp: ListByServer_def Client_Send_def pageOf_def worldAfter_def responderForListByServer_def)

lemma pageOf_serves:
  assumes "serves c req w (p # ps)"
  shows "Model (pageOf c req w) = Some p" and "HasMore (pageOf c req w) = (ps \<noteq> [])"
  using serves_Cons(3,4)[OF assms]
  by (auto simp: pageOf_def HasMore_def responderForListByServer_def split: prod.splits)

lemma nthPage_serves:
  assumes "preparerForListByServer c ident = (req0, None)" "serves c req0 w pages"
  shows "i < length pages \<Longrightarrow>
    \<exists>req w' lg'. nthPage c ident i (lg, w) = Some (Return (pageOf c req w', None), (lg', worldAfter c req w'))
       \<and> serves c req w' (drop i pages)"
proof (induction i)
  case 0
  then obtain p ps where pg: "pages = p # ps" by (cases pages) auto
  with assms(2) have sv: "serves c req0 w (p # ps)" by simp
  have "nthPage c ident 0 (lg, w)
      = Some (Return (pageOf c req0 w, None), (lg @ [req0], worldAfter c req0 w))"
    using ListByServer_serves[OF assms(1) sv, of lg] by simp
  moreover have "serves c req0 w (drop 0 pages)" using assms(2) by simp
  ultimately show ?case by blast
next
  case (Suc i)
  then obtain req w' lg' where
    np: "nthPage c ident i (lg, w) = Some (Return (pageOf c req w', None), (lg', worldAfter c req w'))"
    and sv: "serves c req w' (drop i pages)" by auto
  from Suc.prems have dr: "drop i pages = pages ! i # pages ! Suc i # drop (Suc (Suc i)) pages"
    by (simp add: Cons_nth_drop_Suc Suc_lessD)
  from serves_next[OF sv[unfolded dr]] obtain nl req' where
    nl: "NextLink (fst (Respond c (fst (fst (Send c req w'))))) = Some nl"
    and pr: "preparerForListByServerWithNextLink c nl = (req', None)"
    and sv': "serves c req' (worldAfter c req w') (pages ! Suc i # drop (Suc (Suc i)) pages)"
    by (auto simp: worldAfter_def)
  have hm: "HasMore (pageOf c req w')" "nextLink (pageOf c req w') = Some nl"
      "nextPageFunc (pageOf c req w') = Some c"
    using nl by (auto simp: HasMore_def pageOf_def responderForListByServer_def split: prod.splits)
  have lm: "LoadMore (pageOf c req w') (lg', worldAfter c req w')
     = (Return (pageOf c req' (worldAfter c req w'), None),
        (lg' @ [req'], worldAfter c req' (worldAfter c req w')))"
    using hm nextPage_serves[OF pr sv'] by (simp add: LoadMore_def)
  have d: "drop (Suc i) pages = pages ! Suc i # drop (Suc (Suc i)) pages"
    using Suc.prems by (simp add: Cons_nth_drop_Suc)
  have "nthPage c ident (Suc i) (lg, w)
      = Some (Return (pageOf c req' (worldAfter c req w'), None),
              (lg' @ [req'], worldAfter c req' (worldAfter c req w')))"
    using np hm lm by simp
  moreover have "serves c req' (worldAfter c req w') (drop (Suc i) pages)"
    using sv' by (simp only: d)
  ultimately show ?case by blast
qed

lemma complete_at_nthPage:
  "nthPage c ident k n = Some (Return (page, None), n1) \<Longrightarrow>
   \<exists>items. ListByServerCompleteMatchingPredicate c ident m n = loadPages m page items n1"
proof (induction k arbitrary: page n1)
  case 0
  then show ?case
    by (auto simp: ListByServerCompleteMatchingPredicate_def split: prod.splits)
next
  case (Suc k)
  from Suc.prems obtain pg n0 where
    np: "nthPage c ident k n = Some (Return (pg, None), n0)" and hm: "HasMore pg"
    and lm: "LoadMore pg n0 = (Return (page, None), n1)"
    by (auto split: option.splits prod.splits outcome.splits if_splits)
  from Suc.IH[OF np] obtain items where
    "ListByServerCompleteMatchingPredicate c ident m n = loadPages m pg items n0" by blast
  also have "\<dots> = loadPages m page (appendMatching m (Model page) items) n1"
    by (subst loadPages.simps) (simp add: hm lm)
  finally show ?case by blast
qed

lemma complete_fails_at:
  assumes "nthPage c ident k n = Some (Return (page, Some e), n')"
  shows "ListByServerCompleteMatchingPredicate c ident m n =
    Some (Return (zeroCompleteResult,
      Some (Errorf (if k = 0 then ''loading the initial page: %+v'' else ''loading the next page: %+v'') [ArgE e])), n')"
proof (cases k)
  case 0
  with assms show ?thesis
    by (auto simp: ListByServerCompleteMatchingPredicate_def split: prod.splits)
next
  case (Suc j)
  with assms obtain pg n0 where
    np: "nthPage c ident j n = Some (Return (pg, None), n0)" and hm: "HasMore pg"
    and lm: "LoadMore pg n0 = (Return (page, Some e), n')"
    by (auto split: option.splits prod.splits outcome.splits if_splits)
  from complete_at_nthPage[OF np] obtain items where
    "ListByServerCompleteMatchingPredicate c ident m n = loadPages m pg items n0" by blast
  also have "\<dots> = Some (Return (zeroCompleteResult, Some (Errorf ''loading the next page: %+v'' [ArgE e])), n')"
    by (subst loadPages.simps) (simp add: hm lm)
  finally show ?thesis using Suc by simp
qed

lemma appendMatching_filter:
  "appendMatching p md (filter p items)
     = filter p (appendMatching ServerConfigurationPredicate_zero md items)"
  by (simp add: appendMatching_eq ServerConfigurationPredicate_zero_def split: option.splits)

lemma loadPages_filter_fwd:
  "loadPages m page items n = Some y \<Longrightarrow> m = ServerConfigurationPredicate_zero \<Longrightarrow>
     loadPages p page (filter p items) n = Some (filterOutcome p y)"
proof (induction arbitrary: rule: loadPages.raw_induct[rotated 1, consumes 1])
  case (1 f m page items n y)
  show ?case
  proof (cases "HasMore page")
    case False
    with 1(2) show ?thesis
      by (subst loadPages.simps) (auto simp: filterOutcome_def)
  next
    case True
    show ?thesis
    proof -
      obtain out n1 where Pair: "LoadMore page n = (out, n1)" by (metis prod.exhaust)
      show ?thesis
      proof (cases out)
        case Panic
        with 1(2) True Pair show ?thesis
          by (subst loadPages.simps) (auto simp: filterOutcome_def)
      next
        case (Return r)
        obtain page' err where r: "r = (page', err)" by (cases r)
        show ?thesis
        proof (cases err)
          case (Some e)
          with 1(2) True Pair Return r show ?thesis
            by (subst loadPages.simps) (auto simp: filterOutcome_def zeroCompleteResult_def)
        next
          case None
          with 1(2) True Pair Return r
          have "f m page' (appendMatching m (Model page') items) n1 = Some y" by simp
          from 1(1)[OF this 1(3)]
          have "loadPages p page' (filter p (appendMatching m (Model page') items)) n1
                  = Some (filterOutcome p y)" .
          with True Pair Return r None 1(3) show ?thesis
            by (subst loadPages.simps) (simp add: appendMatching_filter)
        qed
      qed
    qed
  qed
qed

lemma loadPages_terminates_any:
  "loadPages m page items n = Some y \<Longrightarrow> loadPages m' page items' n \<noteq> None"
proof (induction arbitrary: items' rule: loadPages.raw_induct[rotated 1, consumes 1])
  case (1 f m page items n y)
  show ?case
  proof (cases "HasMore page")
    case False
    then show ?thesis by (subst loadPages.simps) simp
  next
    case True
    show ?thesis
    proof -
      obtain out n1 where Pair: "LoadMore page n = (out, n1)" by (metis prod.exhaust)
      show ?thesis
      proof (cases out)
        case Panic
        with True Pair show ?thesis by (subst loadPages.simps) simp
      next
        case (Return r)
        obtain page' err where r: "r = (page', err)" by (cases r)
        show ?thesis
        proof (cases err)
          case (Some e)
          with True Pair Return r show ?thesis by (subst loadPages.simps) simp
        next
          case None
          with 1(2) True Pair Return r
          have "f m page' (appendMatching m (Model page') items) n1 = Some y" by simp
          from 1(1)[OF this]
          have "loadPages m' page' (appendMatching m' (Model page') items') n1 \<noteq> None" .
          with True Pair Return r None show ?thesis
            by (subst loadPages.simps) simp
        qed
      qed
    qed
  qed
qed

lemma loadPages_filter:
  "loadPages p page (filter p items) n
     = map_option (filterOutcome p) (loadPages ServerConfigurationPredicate_zero page items n)"
proof (cases "loadPages ServerConfigurationPredicate_zero page items n")
  case None
  have "loadPages p page (filter p items) n = None"
  proof (rule ccontr)
    assume "loadPages p page (filter p items) n \<noteq> None"
    then obtain y where "loadPages p page (filter p items) n = Some y" by auto
    from loadPages_terminates_any[OF this] None show False by blast
  qed
  with None show ?thesis by simp
next
  case (Some y)
  from loadPages_filter_fwd[OF Some refl] Some show ?thesis by simp
qed

lemma complete_refines:
  "ListByServerCompleteMatchingPredicate c ident p n
     = map_option (filterOutcome p) (ListByServerComplete c ident n)"
proof -
  obtain page err n1 where l: "ListByServer c ident n = ((page, err), n1)"
    by (metis prod.exhaust)
  show ?thesis
  proof (cases err)
    case (Some e)
    with l show ?thesis
      by (simp add: ListByServerComplete_def
            ListByServerCompleteMatchingPredicate_def filterOutcome_def zeroCompleteResult_def)
  next
    case None
    have "appendMatching p (Model page) [] = filter p (appendMatching ServerConfigurationPredicate_zero (Model page) [])"
      using appendMatching_filter[of p "Model page" "[]"] by simp
    with l None loadPages_filter[of p page "appendMatching ServerConfigurationPredicate_zero (Model page) []" n1]
    show ?thesis
      by (simp add: ListByServerComplete_def
            ListByServerCompleteMatchingPredicate_def)
  qed
qed

text \<open>
  C2.  When the server holds the pages \<open>pages\<close>, each linked to the next by a continuation
  token and the last carrying none, \<open>ListByServerComplete\<close> returns without error the
  concatenation of all pages' items, in page order and in each page's own order; the
  \<open>i\<close>-th page fetched is \<open>pages ! i\<close>, and \<open>HasMore\<close> holds on it exactly when it is not
  the last page.
\<close>

theorem pagination_complete_concat:
  assumes "servesFrom c ident w pages"
  shows "(\<exists>n'. ListByServerComplete c ident (lg, w) = Some (Return (\<lparr>Items = concat pages\<rparr>, None), n'))
       \<and> (\<forall>i<length pages. \<exists>page n'.
             nthPage c ident i (lg, w) = Some (Return (page, None), n')
             \<and> Model page = Some (pages ! i) \<and> HasMore page = (Suc i < length pages))"
proof -
  from assms obtain req0 where pr: "preparerForListByServer c ident = (req0, None)"
    and sv: "serves c req0 w pages"
    by (auto simp: servesFrom_def split: prod.splits option.splits)
  from sv obtain p ps where pg: "pages = p # ps" by (cases pages) auto
  have l: "ListByServer c ident (lg, w) = ((pageOf c req0 w, None), (lg @ [req0], worldAfter c req0 w))"
    using ListByServer_serves[OF pr sv[unfolded pg]] .
  from loadPages_serves[OF sv[unfolded pg], of ServerConfigurationPredicate_zero "p" "lg @ [req0]"]
  obtain n' where "loadPages ServerConfigurationPredicate_zero (pageOf c req0 w) p (lg @ [req0], worldAfter c req0 w)
     = Some (Return (\<lparr>Items = p @ filter ServerConfigurationPredicate_zero (concat ps)\<rparr>, None), n')"
    by blast
  moreover have "filter ServerConfigurationPredicate_zero (concat ps) = concat ps"
    and "filter ServerConfigurationPredicate_zero p = p"
    by (simp_all add: ServerConfigurationPredicate_zero_def)
  ultimately have a: "\<exists>n'. ListByServerComplete c ident (lg, w) = Some (Return (\<lparr>Items = concat pages\<rparr>, None), n')"
    using l pg pageOf_serves(1)[OF sv[unfolded pg]]
    by (simp add: ListByServerComplete_def ListByServerCompleteMatchingPredicate_def appendMatching_eq)
  have b: "\<exists>page n'. nthPage c ident i (lg, w) = Some (Return (page, None), n')
             \<and> Model page = Some (pages ! i) \<and> HasMore page = (Suc i < length pages)"
    if i: "i < length pages" for i
  proof -
    from nthPage_serves[OF pr sv i, of lg] obtain req w' lg' where
      np: "nthPage c ident i (lg, w) = Some (Return (pageOf c req w', None), (lg', worldAfter c req w'))"
      and s: "serves c req w' (drop i pages)" by blast
    from i have d: "drop i pages = pages ! i # drop (Suc i) pages" by (simp add: Cons_nth_drop_Suc)
    from pageOf_serves[OF s[unfolded d]] i np show ?thesis by auto
  qed
  from a b show ?thesis by blast
qed

theorem pagination_complete_concat_witness:
  "servesFrom demoClient ''/a'' 0 [[1, 2], [3]]
   \<and> (\<exists>n'. ListByServerComplete demoClient ''/a'' ([], 0) = Some (Return (\<lparr>Items = [1, 2, 3]\<rparr>, None), n'))
   \<and> (\<exists>page n'. nthPage demoClient ''/a'' 0 ([], 0) = Some (Return (page, None), n')
           \<and> Model page = Some [1, 2] \<and> HasMore page)
   \<and> (\<exists>page n'. nthPage demoClient ''/a'' 1 ([], 0) = Some (Return (page, None), n')
           \<and> Model page = Some [3] \<and> \<not> HasMore page)"
proof -
  have h: "servesFrom demoClient ''/a'' 0 [[1, 2], [3]]"
    by (simp add: demo_defs)
  from pagination_complete_concat[OF h, of "[]"] have
    a: "\<exists>n'. ListByServerComplete demoClient ''/a'' ([], 0) = Some (Return (\<lparr>Items = concat [[1, 2], [3]]\<rparr>, None), n')"
    and b: "\<forall>i<length [[1, 2], [3::nat]]. \<exists>page n'.
             nthPage demoClient ''/a'' i ([], 0) = Some (Return (page, None), n')
             \<and> Model page = Some ([[1, 2], [3]] ! i) \<and> HasMore page = (Suc i < length [[1, 2], [3::nat]])"
    by blast+
  from b[rule_format, of 0] b[rule_format, of 1] a h show ?thesis by simp
qed

text \<open>
  C3.  When the \<open>k\<close>-th fetch of a completion fails with error \<open>e\<close>,
  \<open>ListByServerCompleteMatchingPredicate\<close> returns an error that wraps \<open>e\<close> and a result
  with no items, whatever earlier pages held.  The context of the error is
  "loading the initial page" exactly when the failed fetch is the first one, and
  "loading the next page" exactly when it is a later one.
\<close>

theorem completion_failure_discards_items:
  assumes "nthPage c ident k n = Some (Return (page, Some e), n')"
  shows "\<exists>ctx. ListByServerCompleteMatchingPredicate c ident m n
             = Some (Return (\<lparr>Items = []\<rparr>, Some (Errorf ctx [ArgE e])), n')
           \<and> (ctx = ''loading the initial page: %+v'') = (k = 0)
           \<and> (ctx = ''loading the next page: %+v'') = (k \<noteq> 0)"
  using complete_fails_at[OF assms, of m] by (cases k) (simp_all add: zeroCompleteResult_def)

theorem completion_failure_discards_items_witness:
  "nthPage demoClient ''/b'' 1 ([], 0)
     = Some (Return (\<lparr>HttpResponse = Some ''/b/2'', Model = Some [], nextLink = None, nextPageFunc = None\<rparr>,
                     Some failedSecondFetch), ([Some ''/b/configurations'', Some ''/b/2''], 2))
   \<and> ListByServerCompleteMatchingPredicate demoClient ''/b'' (\<lambda>v. True) ([], 0)
       = Some (Return (\<lparr>Items = []\<rparr>, Some (Errorf ''loading the next page: %+v'' [ArgE failedSecondFetch])),
               ([Some ''/b/configurations'', Some ''/b/2''], 2))"
proof -
  have h: "nthPage demoClient ''/b'' 1 ([], 0)
     = Some (Return (\<lparr>HttpResponse = Some ''/b/2'', Model = Some [], nextLink = None, nextPageFunc = None\<rparr>,
                     Some failedSecondFetch), ([Some ''/b/configurations'', Some ''/b/2''], 2))"
    by (simp add: demo_defs failedSecondFetch_def numeral_2_eq_2)
  from completion_failure_discards_items[OF h, of "\<lambda>v. True"] h show ?thesis by auto
qed

text \<open>
  C4.  When the server holds the pages \<open>pages\<close>, the completion with predicate \<open>p\<close>, which
  tests each item as its page arrives and appends the matches, returns without error exactly
  the list obtained by concatenating all pages and filtering the concatenation by \<open>p\<close>,
  in the same order; the completion with the trivially true predicate returns that
  concatenation itself, and both leave the network in the same state.
\<close>

theorem filter_while_loading_is_filter_of_concat:
  assumes "servesFrom c ident w pages"
  shows "\<exists>n'. ListByServerCompleteMatchingPredicate c ident p (lg, w)
                = Some (Return (\<lparr>Items = filter p (concat pages)\<rparr>, None), n')
            \<and> ListByServerComplete c ident (lg, w)
                = Some (Return (\<lparr>Items = concat pages\<rparr>, None), n')"
proof -
  from assms obtain req0 where pr: "preparerForListByServer c ident = (req0, None)"
    and sv: "serves c req0 w pages"
    by (auto simp: servesFrom_def split: prod.splits option.splits)
  from sv obtain q qs where pg: "pages = q # qs" by (cases pages) auto
  have l: "ListByServer c ident (lg, w)
             = ((pageOf c req0 w, None), (lg @ [req0], worldAfter c req0 w))"
    using ListByServer_serves[OF pr sv[unfolded pg]] .
  have md: "Model (pageOf c req0 w) = Some q"
    using pageOf_serves(1)[OF sv[unfolded pg]] .
  from loadPages_serves[OF sv[unfolded pg], of p "filter p q" "lg @ [req0]"]
  obtain n' where lp: "loadPages p (pageOf c req0 w) (filter p q) (lg @ [req0], worldAfter c req0 w)
     = Some (Return (\<lparr>Items = filter p q @ filter p (concat qs)\<rparr>, None), n')"
    by blast
  have m: "ListByServerCompleteMatchingPredicate c ident p (lg, w)
             = Some (Return (\<lparr>Items = filter p (concat pages)\<rparr>, None), n')"
    using l md lp pg
    by (simp add: ListByServerCompleteMatchingPredicate_def appendMatching_eq)
  from m complete_refines[of c ident p "(lg, w)"]
  obtain y where y: "ListByServerComplete c ident (lg, w) = Some y"
    and fy: "filterOutcome p y = (Return (\<lparr>Items = filter p (concat pages)\<rparr>, None), n')"
    by (cases "ListByServerComplete c ident (lg, w)") auto
  from loadPages_serves[OF sv[unfolded pg], of ServerConfigurationPredicate_zero "q" "lg @ [req0]"]
  obtain n0 where "loadPages ServerConfigurationPredicate_zero (pageOf c req0 w) q
       (lg @ [req0], worldAfter c req0 w)
     = Some (Return (\<lparr>Items = q @ filter ServerConfigurationPredicate_zero (concat qs)\<rparr>, None), n0)"
    by blast
  moreover have "filter ServerConfigurationPredicate_zero (concat qs) = concat qs"
    and "filter ServerConfigurationPredicate_zero q = q"
    by (simp_all add: ServerConfigurationPredicate_zero_def)
  ultimately have d: "ListByServerComplete c ident (lg, w)
      = Some (Return (\<lparr>Items = concat pages\<rparr>, None), n0)"
    using l md pg
    by (simp add: ListByServerComplete_def ListByServerCompleteMatchingPredicate_def
          appendMatching_eq)
  from d y fy have "n0 = n'" by (auto simp: filterOutcome_def)
  with m d show ?thesis by blast
qed

theorem filter_while_loading_is_filter_of_concat_witness:
  "servesFrom demoClient ''/a'' 0 [[1, 2], [3]]
   \<and> (\<exists>n'. ListByServerCompleteMatchingPredicate demoClient ''/a'' (\<lambda>v. v \<noteq> 2) ([], 0)
               = Some (Return (\<lparr>Items = [1, 3]\<rparr>, None), n')
           \<and> ListByServerComplete demoClient ''/a'' ([], 0)
               = Some (Return (\<lparr>Items = [1, 2, 3]\<rparr>, None), n'))"
proof -
  have h: "servesFrom demoClient ''/a'' 0 [[1, 2], [3]]"
    by (simp add: demo_defs)
  from filter_while_loading_is_filter_of_concat[OF h, of "\<lambda>v. v \<noteq> 2" "[]"] h
  show ?thesis by simp
qed

text \<open>
  C10.  On a response without continuation token \<open>LoadMore\<close> returns the error
  "no more pages returned" and leaves the network untouched, so no request is sent; on a
  response with one it calls the stored next-page function with that token.  The responder
  stores the body's next link, and stores the next-page function exactly when the body
  carried a next link.
\<close>

theorem LoadMore_only_when_HasMore:
  "(\<not> HasMore r \<longrightarrow>
      LoadMore r n = (Return (zeroResponse, Some (Errorf ''no more pages returned'' [])), n))
   \<and> (HasMore r \<longrightarrow>
        (case nextPageFunc r of
           None \<Rightarrow> LoadMore r n = (Panic, n)
         | Some c \<Rightarrow> \<exists>nl. nextLink r = Some nl
                     \<and> LoadMore r n = (case nextPage c nl n of (res, n1) \<Rightarrow> (Return res, n1))))
   \<and> nextLink (fst (responderForListByServer c h)) = NextLink (fst (Respond c h))
   \<and> nextPageFunc (fst (responderForListByServer c h))
        = (if NextLink (fst (Respond c h)) = None then None else Some c)"
  by (auto simp: LoadMore_def HasMore_def responderForListByServer_def split: option.splits prod.splits)

theorem LoadMore_only_when_HasMore_witness:
  "\<not> HasMore (fst (responderForListByServer demoClient (Some ''/a/2'')))
   \<and> LoadMore (fst (responderForListByServer demoClient (Some ''/a/2''))) ([], 0)
       = (Return (zeroResponse, Some (Errorf ''no more pages returned'' [])), ([], 0))
   \<and> HasMore (fst (responderForListByServer demoClient (Some ''/a/configurations'')))
   \<and> fst (snd (LoadMore (fst (responderForListByServer demoClient (Some ''/a/configurations''))) ([], 0)))
       = [Some ''/a/2'']"
proof -
  let ?last = "fst (responderForListByServer demoClient (Some ''/a/2''))"
  let ?first = "fst (responderForListByServer demoClient (Some ''/a/configurations''))"
  have a: "\<not> HasMore ?last" by (simp add: demo_defs)
  have b: "HasMore ?first" by (simp add: demo_defs)
  have c: "nextPageFunc ?first = Some demoClient" "nextLink ?first = Some ''/a/2''"
    by (simp_all add: responderForListByServer_def, simp_all add: demoClient_def)
  have d: "fst (snd (nextPage demoClient ''/a/2'' ([], 0))) = [Some ''/a/2'']"
    by (simp add: demo_defs)
  from LoadMore_only_when_HasMore[of ?last "([], 0)" demoClient "Some ''/a/2''"] a
  have "LoadMore ?last ([], 0) = (Return (zeroResponse, Some (Errorf ''no more pages returned'' [])), ([], 0))"
    by blast
  moreover
  from LoadMore_only_when_HasMore[of ?first "([], 0)" demoClient "Some ''/a/2''"] b c
  have "LoadMore ?first ([], 0) = (case nextPage demoClient ''/a/2'' ([], 0) of (res, n1) \<Rightarrow> (Return res, n1))"
    by simp
  ultimately show ?thesis using a b d by (auto split: prod.splits)
qed

section \<open>Properties of the resource ID codec\<close>

lemma splitOn_nonempty [simp]: "splitOn d s \<noteq> []"
  by (induction s) (auto split: list.splits)

lemma splitOn_no_delim: "d \<notin> set s \<Longrightarrow> splitOn d s = [s]"
  by (induction s) auto

lemma splitOn_append_delim:
  "d \<notin> set a \<Longrightarrow> splitOn d (a @ d # rest) = a # splitOn d rest"
  by (induction a) (auto split: list.splits)

lemma splitOn_ID:
  assumes "CHR ''/'' \<notin> set s" "CHR ''/'' \<notin> set rg" "CHR ''/'' \<notin> set m" "CHR ''/'' \<notin> set a"
    "CHR ''/'' \<notin> set t"
  shows "splitOn CHR ''/'' (LogzSubAccountTagRuleId_ID (NewLogzSubAccountTagRuleID s rg m a t))
    = ['''', ''subscriptions'', s, ''resourceGroups'', rg, ''providers'', ''Microsoft.Logz'',
       ''monitors'', m, ''accounts'', a, ''tagRules'', t]"
proof -
  have 1: "splitOn CHR ''/'' (s @ CHR ''/'' # r) = s # splitOn CHR ''/'' r" for r
    using assms(1) by (rule splitOn_append_delim)
  have 2: "splitOn CHR ''/'' (rg @ CHR ''/'' # r) = rg # splitOn CHR ''/'' r" for r
    using assms(2) by (rule splitOn_append_delim)
  have 3: "splitOn CHR ''/'' (m @ CHR ''/'' # r) = m # splitOn CHR ''/'' r" for r
    using assms(3) by (rule splitOn_append_delim)
  have 4: "splitOn CHR ''/'' (a @ CHR ''/'' # r) = a # splitOn CHR ''/'' r" for r
    using assms(4) by (rule splitOn_append_delim)
  have 5: "splitOn CHR ''/'' t = [t]" using assms(5) by (rule splitOn_no_delim)
  show ?thesis
    by (simp add: LogzSubAccountTagRuleId_ID_def NewLogzSubAccountTagRuleID_def 1 2 3 4 5)
qed

lemma roundtrip:
  assumes "validLogzSubAccountTagRuleId x"
  shows "LogzSubAccountTagRuleID (LogzSubAccountTagRuleId_ID x) = Inr x"
proof -
  obtain s rg m a t where x: "x = NewLogzSubAccountTagRuleID s rg m a t"
    by (cases x) (auto simp: NewLogzSubAccountTagRuleID_def)
  from assms have v: "s \<noteq> []" "rg \<noteq> []" "m \<noteq> []" "a \<noteq> []" "t \<noteq> []"
    and f: "CHR ''/'' \<notin> set s" "CHR ''/'' \<notin> set rg" "CHR ''/'' \<notin> set m" "CHR ''/'' \<notin> set a"
      "CHR ''/'' \<notin> set t"
    by (simp_all add: x validLogzSubAccountTagRuleId_def validSegment_def NewLogzSubAccountTagRuleID_def)
  show ?thesis unfolding x
    by (simp add: LogzSubAccountTagRuleID_def splitOn_ID[OF f] logzSubAccountTagRuleSegments_def v)
qed

lemma matchSegments_length:
  "matchSegments ts segs = Inr vs \<Longrightarrow> length segs = length ts"
  by (induction ts segs arbitrary: vs rule: matchSegments.induct) (auto split: if_splits sum.splits)

lemma matchSegments_last_Val:
  "matchSegments ts segs = Inr vs \<Longrightarrow> ts \<noteq> [] \<Longrightarrow> last ts = Val \<Longrightarrow> last segs \<noteq> []"
proof (induction ts segs arbitrary: vs rule: matchSegments.induct)
  case (4 l ts s ss)
  then have m: "matchSegments ts ss = Inr vs" by (simp split: if_splits)
  from 4 have ne: "ts \<noteq> []" by auto
  with matchSegments_length[OF m] have "ss \<noteq> []" by auto
  with 4 m ne show ?case by (auto split: if_splits)
next
  case (6 ts s ss)
  then obtain vs' where m: "matchSegments ts ss = Inr vs'" and s: "s \<noteq> []"
    by (auto split: if_splits sum.splits)
  show ?case
  proof (cases "ts = []")
    case True
    with matchSegments_length[OF m] s show ?thesis by simp
  next
    case False
    with matchSegments_length[OF m] have "ss \<noteq> []" by auto
    with 6 m False s show ?thesis by (auto split: if_splits)
  qed
qed simp_all

lemma length_splitOn: "length (splitOn CHR ''/'' s) = Suc (nslash s)"
  by (induction s) (auto simp: nslash_def split: list.splits)

lemma splitOn_snoc_delim: "splitOn d (s @ [d]) = splitOn d s @ [[]]"
  by (induction s) (auto split: list.splits)

lemma nslash_take: "nslash (take n s) \<le> nslash s"
proof -
  have "nslash s = nslash (take n s) + nslash (drop n s)"
    unfolding nslash_def by (metis append_take_drop_id filter_append length_append)
  then show ?thesis by simp
qed

lemma parse_ok_shape:
  assumes "LogzSubAccountTagRuleID input = Inr y"
  shows "nslash input = 12" and "last (splitOn CHR ''/'' input) \<noteq> []"
proof -
  from assms obtain vs where
    m: "matchSegments logzSubAccountTagRuleSegments (splitOn CHR ''/'' input) = Inr vs"
    by (auto simp: LogzSubAccountTagRuleID_def split: sum.splits)
  from matchSegments_length[OF m] show "nslash input = 12"
    by (simp add: length_splitOn logzSubAccountTagRuleSegments_def)
  from matchSegments_last_Val[OF m] show "last (splitOn CHR ''/'' input) \<noteq> []"
    by (simp add: logzSubAccountTagRuleSegments_def)
qed

lemma ID_split: "LogzSubAccountTagRuleId_ID x = prefixBeforeTagRuleName x @ ''/'' @ TagRuleName x"
  by (simp add: LogzSubAccountTagRuleId_ID_def prefixBeforeTagRuleName_def)

lemma nslash_append: "nslash (a @ b) = nslash a + nslash b"
  by (simp add: nslash_def)

lemma nslash_prefix:
  assumes "validLogzSubAccountTagRuleId x"
  shows "nslash (prefixBeforeTagRuleName x) = 11"
proof -
  have z: "nslash s = 0" if "CHR ''/'' \<notin> set s" for s
    using that by (induction s) (auto simp: nslash_def)
  from assms have "nslash (SubscriptionId x) = 0" "nslash (ResourceGroup x) = 0"
    "nslash (MonitorName x) = 0" "nslash (AccountName x) = 0"
    by (simp_all add: validLogzSubAccountTagRuleId_def validSegment_def z)
  then show ?thesis
    by (simp add: prefixBeforeTagRuleName_def nslash_append) (simp add: nslash_def)
qed

lemma prefix_rejected:
  assumes "validLogzSubAccountTagRuleId x"
    and "n \<le> length (LogzSubAccountTagRuleId_ID x) - length (TagRuleName x)"
  shows "isl (LogzSubAccountTagRuleID (take n (LogzSubAccountTagRuleId_ID x)))"
proof (rule ccontr)
  assume "\<not> ?thesis"
  then obtain y where ok: "LogzSubAccountTagRuleID (take n (LogzSubAccountTagRuleId_ID x)) = Inr y"
    by (cases "LogzSubAccountTagRuleID (take n (LogzSubAccountTagRuleId_ID x))") auto
  let ?pre = "prefixBeforeTagRuleName x"
  from assms(2) have n: "n \<le> Suc (length ?pre)" by (simp add: ID_split)
  show False
  proof (cases "n = Suc (length ?pre)")
    case True
    then have "take n (LogzSubAccountTagRuleId_ID x) = ?pre @ ''/''" by (simp add: ID_split)
    with parse_ok_shape(2)[OF ok] show False by (simp add: splitOn_snoc_delim)
  next
    case False
    with n have "take n (LogzSubAccountTagRuleId_ID x) = take n ?pre" by (simp add: ID_split)
    with parse_ok_shape(1)[OF ok] nslash_take[of n ?pre] nslash_prefix[OF assms(1)]
    show False by simp
  qed
qed

lemma upper_rejected: "isl (LogzSubAccountTagRuleID (toUpper (LogzSubAccountTagRuleId_ID x)))"
proof -
  have "toUpper (LogzSubAccountTagRuleId_ID x) = ''/SUBSCRIPTIONS/'' @ toUpper (drop 15 (LogzSubAccountTagRuleId_ID x))"
    by (simp add: toUpper_def LogzSubAccountTagRuleId_ID_def toUpperChar_def)
  then show ?thesis
    by (simp add: LogzSubAccountTagRuleID_def logzSubAccountTagRuleSegments_def split: list.splits)
qed

text \<open>
  C1.  For every valid component tuple, parsing the formatted identifier gives back the
  tuple; in particular the struct parsed from \<open>NewLogzSubAccountTagRuleID(...).ID()\<close> has the
  five constructor arguments in its five fields.
\<close>

theorem parse_format_roundtrip:
  assumes "validSegment s" "validSegment rg" "validSegment m" "validSegment a" "validSegment t"
  shows "LogzSubAccountTagRuleID
           (LogzSubAccountTagRuleId_ID (NewLogzSubAccountTagRuleID s rg m a t))
         = Inr \<lparr>SubscriptionId = s, ResourceGroup = rg, MonitorName = m, AccountName = a,
                TagRuleName = t\<rparr>
       \<and> (\<forall>x. validLogzSubAccountTagRuleId x \<longrightarrow>
              LogzSubAccountTagRuleID (LogzSubAccountTagRuleId_ID x) = Inr x)"
proof -
  have "validLogzSubAccountTagRuleId (NewLogzSubAccountTagRuleID s rg m a t)"
    using assms by (simp add: validLogzSubAccountTagRuleId_def NewLogzSubAccountTagRuleID_def)
  from roundtrip[OF this] roundtrip show ?thesis
    by (simp add: NewLogzSubAccountTagRuleID_def)
qed

theorem parse_format_roundtrip_witness:
  "validSegment ''sub-1'' \<and> validSegment ''group1'' \<and> validSegment ''monitor1''
   \<and> validSegment ''account1'' \<and> validSegment ''rules1''
   \<and> LogzSubAccountTagRuleID
        ''/subscriptions/sub-1/resourceGroups/group1/providers/Microsoft.Logz/monitors/monitor1/accounts/account1/tagRules/rules1''
      = Inr \<lparr>SubscriptionId = ''sub-1'', ResourceGroup = ''group1'', MonitorName = ''monitor1'',
             AccountName = ''account1'', TagRuleName = ''rules1''\<rparr>"
proof -
  have v: "validSegment ''sub-1''" "validSegment ''group1''" "validSegment ''monitor1''"
    "validSegment ''account1''" "validSegment ''rules1''"
    by (simp_all add: validSegment_def)
  have f: "LogzSubAccountTagRuleId_ID
             (NewLogzSubAccountTagRuleID ''sub-1'' ''group1'' ''monitor1'' ''account1'' ''rules1'')
      = ''/subscriptions/sub-1/resourceGroups/group1/providers/Microsoft.Logz/monitors/monitor1/accounts/account1/tagRules/rules1''"
    by (simp add: LogzSubAccountTagRuleId_ID_def NewLogzSubAccountTagRuleID_def)
  from parse_format_roundtrip[OF v] v f show ?thesis by simp
qed

text \<open>
  C6.  The identifier built from the five components of the formatter test is exactly the
  expected string, and parsing that string succeeds with exactly those five components.
\<close>

theorem example_id_formats_and_parses:
  "LogzSubAccountTagRuleId_ID
     (NewLogzSubAccountTagRuleID ''12345678-1234-9876-4563-123456789012'' ''resourceGroup1''
        ''monitor1'' ''subAccount1'' ''ruleSet1'')
     = ''/subscriptions/12345678-1234-9876-4563-123456789012/resourceGroups/resourceGroup1/providers/Microsoft.Logz/monitors/monitor1/accounts/subAccount1/tagRules/ruleSet1''
   \<and> LogzSubAccountTagRuleID ''/subscriptions/12345678-1234-9876-4563-123456789012/resourceGroups/resourceGroup1/providers/Microsoft.Logz/monitors/monitor1/accounts/subAccount1/tagRules/ruleSet1''
     = Inr \<lparr>SubscriptionId = ''12345678-1234-9876-4563-123456789012'',
            ResourceGroup = ''resourceGroup1'', MonitorName = ''monitor1'',
            AccountName = ''subAccount1'', TagRuleName = ''ruleSet1''\<rparr>"
proof -
  have f: "LogzSubAccountTagRuleId_ID exampleId = ''/subscriptions/12345678-1234-9876-4563-123456789012/resourceGroups/resourceGroup1/providers/Microsoft.Logz/monitors/monitor1/accounts/subAccount1/tagRules/ruleSet1''"
    by (simp add: exampleId_def LogzSubAccountTagRuleId_ID_def NewLogzSubAccountTagRuleID_def)
  have "validLogzSubAccountTagRuleId exampleId"
    by (simp add: exampleId_def validLogzSubAccountTagRuleId_def validSegment_def
          NewLogzSubAccountTagRuleID_def)
  from roundtrip[OF this] f show ?thesis
    by (simp add: exampleId_def NewLogzSubAccountTagRuleID_def)
qed

lemma empty_value_rejected:
  assumes "CHR ''/'' \<notin> set (s @ rg @ m @ a @ t)"
    and "s = [] \<or> rg = [] \<or> m = [] \<or> a = [] \<or> t = []"
  shows "isl (LogzSubAccountTagRuleID
                (LogzSubAccountTagRuleId_ID (NewLogzSubAccountTagRuleID s rg m a t)))"
proof -
  from assms(1) have f: "CHR ''/'' \<notin> set s" "CHR ''/'' \<notin> set rg" "CHR ''/'' \<notin> set m"
    "CHR ''/'' \<notin> set a" "CHR ''/'' \<notin> set t" by simp_all
  from assms(2) show ?thesis
    by (auto simp: LogzSubAccountTagRuleID_def splitOn_ID[OF f] logzSubAccountTagRuleSegments_def
          split: sum.splits)
qed

lemma joinWith_splitOn: "joinWith d (splitOn d s) = s"
proof (induction s)
  case Nil
  show ?case by simp
next
  case (Cons x xs)
  obtain p ps where sp: "splitOn d xs = p # ps" by (cases "splitOn d xs") auto
  with Cons show ?case by (cases ps) auto
qed

lemma splitOn_pieces: "p \<in> set (splitOn d s) \<Longrightarrow> d \<notin> set p"
proof (induction s arbitrary: p)
  case Nil
  then show ?case by simp
next
  case (Cons x xs)
  obtain q qs where sp: "splitOn d xs = q # qs" by (cases "splitOn d xs") auto
  with Cons show ?case by (auto split: if_splits)
qed

lemma matchSegments_fill:
  "matchSegments ts segs = Inr vs \<Longrightarrow> segs = fill ts vs \<and> (\<forall>v \<in> set vs. v \<noteq> [])"
  by (induction ts segs arbitrary: vs rule: matchSegments.induct)
     (auto split: if_splits sum.splits)

lemma parse_ok_segments:
  assumes "LogzSubAccountTagRuleID input = Inr y"
  shows "splitOn CHR ''/'' input
           = ['''', ''subscriptions'', SubscriptionId y, ''resourceGroups'', ResourceGroup y,
              ''providers'', ''Microsoft.Logz'', ''monitors'', MonitorName y,
              ''accounts'', AccountName y, ''tagRules'', TagRuleName y]
         \<and> SubscriptionId y \<noteq> [] \<and> ResourceGroup y \<noteq> [] \<and> MonitorName y \<noteq> []
         \<and> AccountName y \<noteq> [] \<and> TagRuleName y \<noteq> []"
proof -
  from assms obtain vs where
    m: "matchSegments logzSubAccountTagRuleSegments (splitOn CHR ''/'' input) = Inr vs"
    by (auto simp: LogzSubAccountTagRuleID_def split: sum.splits)
  with assms obtain s rg mo a t where vs: "vs = [s, rg, mo, a, t]"
    and y: "y = NewLogzSubAccountTagRuleID s rg mo a t"
    by (auto simp: LogzSubAccountTagRuleID_def split: list.splits)
  from matchSegments_fill[OF m] show ?thesis
    by (simp add: vs y logzSubAccountTagRuleSegments_def NewLogzSubAccountTagRuleID_def)
qed

lemma parse_ok_canonical:
  assumes "LogzSubAccountTagRuleID input = Inr y"
  shows "input = LogzSubAccountTagRuleId_ID y \<and> validLogzSubAccountTagRuleId y"
proof -
  from parse_ok_segments[OF assms] have
    sg: "splitOn CHR ''/'' input
           = ['''', ''subscriptions'', SubscriptionId y, ''resourceGroups'', ResourceGroup y,
              ''providers'', ''Microsoft.Logz'', ''monitors'', MonitorName y,
              ''accounts'', AccountName y, ''tagRules'', TagRuleName y]"
    and ne: "SubscriptionId y \<noteq> []" "ResourceGroup y \<noteq> []" "MonitorName y \<noteq> []"
      "AccountName y \<noteq> []" "TagRuleName y \<noteq> []"
    by simp_all
  have "input = joinWith CHR ''/'' (splitOn CHR ''/'' input)" by (simp add: joinWith_splitOn)
  then have i: "input = LogzSubAccountTagRuleId_ID y"
    by (simp add: sg LogzSubAccountTagRuleId_ID_def)
  have "CHR ''/'' \<notin> set p" if "p \<in> set (splitOn CHR ''/'' input)" for p
    using that by (rule splitOn_pieces)
  then have "CHR ''/'' \<notin> set (SubscriptionId y)" "CHR ''/'' \<notin> set (ResourceGroup y)"
    "CHR ''/'' \<notin> set (MonitorName y)" "CHR ''/'' \<notin> set (AccountName y)"
    "CHR ''/'' \<notin> set (TagRuleName y)"
    unfolding sg by simp_all
  with ne i show ?thesis
    by (simp add: validLogzSubAccountTagRuleId_def validSegment_def)
qed

text \<open>
  C5.  The parser accepts an input only if its slash-separated pieces are exactly the
  required literal segments, spelled as they are, each in its place and each followed by a
  non-empty value; an accepted input is the formatted form of the valid identifier
  returned.  So every input that lacks a required segment or a value, or spells a literal
  segment in another case, is rejected.  In particular, for a valid identifier every prefix
  that stops at or before the slash in front of the last value is rejected, an identifier
  in which some value is empty is rejected, and the identifier in upper case is rejected.
\<close>

theorem parse_rejects_incomplete_and_upper_case:
  assumes "validLogzSubAccountTagRuleId x"
  shows "(\<forall>n \<le> length (LogzSubAccountTagRuleId_ID x) - length (TagRuleName x).
            isl (LogzSubAccountTagRuleID (take n (LogzSubAccountTagRuleId_ID x))))
       \<and> (\<forall>s rg m a t.
            CHR ''/'' \<notin> set (s @ rg @ m @ a @ t) \<and> (s = [] \<or> rg = [] \<or> m = [] \<or> a = [] \<or> t = [])
            \<longrightarrow> isl (LogzSubAccountTagRuleID
                       (LogzSubAccountTagRuleId_ID (NewLogzSubAccountTagRuleID s rg m a t))))
       \<and> isl (LogzSubAccountTagRuleID (toUpper (LogzSubAccountTagRuleId_ID x)))
       \<and> (\<forall>input y. LogzSubAccountTagRuleID input = Inr y \<longrightarrow>
             input = LogzSubAccountTagRuleId_ID y \<and> validLogzSubAccountTagRuleId y)
       \<and> (\<forall>input.
             (\<nexists>s rg m a t. s \<noteq> [] \<and> rg \<noteq> [] \<and> m \<noteq> [] \<and> a \<noteq> [] \<and> t \<noteq> []
                \<and> splitOn CHR ''/'' input
                    = ['''', ''subscriptions'', s, ''resourceGroups'', rg, ''providers'',
                       ''Microsoft.Logz'', ''monitors'', m, ''accounts'', a, ''tagRules'', t])
             \<longrightarrow> isl (LogzSubAccountTagRuleID input))"
proof -
  have seg: "isl (LogzSubAccountTagRuleID input)"
    if "\<nexists>s rg m a t. s \<noteq> [] \<and> rg \<noteq> [] \<and> m \<noteq> [] \<and> a \<noteq> [] \<and> t \<noteq> []
                \<and> splitOn CHR ''/'' input
                    = ['''', ''subscriptions'', s, ''resourceGroups'', rg, ''providers'',
                       ''Microsoft.Logz'', ''monitors'', m, ''accounts'', a, ''tagRules'', t]"
    for input
  proof (cases "LogzSubAccountTagRuleID input")
    case (Inl e)
    then show ?thesis by simp
  next
    case (Inr y)
    from parse_ok_segments[OF Inr] that show ?thesis by blast
  qed
  from prefix_rejected[OF assms] empty_value_rejected upper_rejected parse_ok_canonical seg
  show ?thesis by blast
qed

theorem parse_rejects_incomplete_and_upper_case_witness:
  "validLogzSubAccountTagRuleId exampleId
   \<and> isl (LogzSubAccountTagRuleID '''')
   \<and> isl (LogzSubAccountTagRuleID ''/'')
   \<and> isl (LogzSubAccountTagRuleID ''/subscriptions/'')
   \<and> isl (LogzSubAccountTagRuleID ''/subscriptions/12345678-1234-9876-4563-123456789012/'')
   \<and> isl (LogzSubAccountTagRuleID ''/subscriptions/12345678-1234-9876-4563-123456789012/resourceGroups/'')
   \<and> isl (LogzSubAccountTagRuleID ''/subscriptions/12345678-1234-9876-4563-123456789012/resourceGroups/resourceGroup1/providers/Microsoft.Logz/'')
   \<and> isl (LogzSubAccountTagRuleID ''/subscriptions/12345678-1234-9876-4563-123456789012/resourceGroups/resourceGroup1/providers/Microsoft.Logz/monitors/'')
   \<and> isl (LogzSubAccountTagRuleID ''/subscriptions/12345678-1234-9876-4563-123456789012/resourceGroups/resourceGroup1/providers/Microsoft.Logz/monitors/monitor1/'')
   \<and> isl (LogzSubAccountTagRuleID ''/subscriptions/12345678-1234-9876-4563-123456789012/resourceGroups/resourceGroup1/providers/Microsoft.Logz/monitors/monitor1/accounts/'')
   \<and> isl (LogzSubAccountTagRuleID ''/subscriptions/12345678-1234-9876-4563-123456789012/resourceGroups/resourceGroup1/providers/Microsoft.Logz/monitors/monitor1/accounts/subAccount1/'')
   \<and> isl (LogzSubAccountTagRuleID ''/subscriptions/12345678-1234-9876-4563-123456789012/resourceGroups/resourceGroup1/providers/Microsoft.Logz/monitors/monitor1/accounts/subAccount1/tagRules/'')
   \<and> isl (LogzSubAccountTagRuleID ''/SUBSCRIPTIONS/12345678-1234-9876-4563-123456789012/RESOURCEGROUPS/RESOURCEGROUP1/PROVIDERS/MICROSOFT.LOGZ/MONITORS/MONITOR1/ACCOUNTS/SUBACCOUNT1/TAGRULES/RULESET1'')
   \<and> isl (LogzSubAccountTagRuleID ''/subscriptions//resourceGroups/resourceGroup1/providers/Microsoft.Logz/monitors/monitor1/accounts/subAccount1/tagRules/ruleSet1'')
   \<and> isl (LogzSubAccountTagRuleID ''/subscriptions/12345678-1234-9876-4563-123456789012/resourceGroups/resourceGroup1/Microsoft.Logz/monitors/monitor1/accounts/subAccount1/tagRules/ruleSet1'')
   \<and> isl (LogzSubAccountTagRuleID ''/subscriptions/12345678-1234-9876-4563-123456789012/resourceGroups/resourceGroup1/providers/Microsoft.Logz/monitors/monitor1/Accounts/subAccount1/tagRules/ruleSet1'')
   \<and> isl (LogzSubAccountTagRuleID ''/subscriptions/12345678-1234-9876-4563-123456789012/resourceGroups/resourceGroup1/providers/Microsoft.Logz/monitors/monitor1/accounts/tagRules/ruleSet1'')
   \<and> LogzSubAccountTagRuleID (LogzSubAccountTagRuleId_ID exampleId) = Inr exampleId"
proof -
  have v: "validLogzSubAccountTagRuleId exampleId"
    by (simp add: exampleId_def validLogzSubAccountTagRuleId_def validSegment_def
          NewLogzSubAccountTagRuleID_def)
  have ex: "LogzSubAccountTagRuleId_ID exampleId = ''/subscriptions/12345678-1234-9876-4563-123456789012/resourceGroups/resourceGroup1/providers/Microsoft.Logz/monitors/monitor1/accounts/subAccount1/tagRules/ruleSet1''"
    by (simp add: exampleId_def LogzSubAccountTagRuleId_ID_def NewLogzSubAccountTagRuleID_def)
  have len: "length (LogzSubAccountTagRuleId_ID exampleId) - length (TagRuleName exampleId) = 155"
    by (simp add: ex) (simp add: exampleId_def NewLogzSubAccountTagRuleID_def)
  note main = parse_rejects_incomplete_and_upper_case[OF v]
  from main have a: "\<forall>n \<le> length (LogzSubAccountTagRuleId_ID exampleId) - length (TagRuleName exampleId).
            isl (LogzSubAccountTagRuleID (take n (LogzSubAccountTagRuleId_ID exampleId)))"
    by blast
  have t0: "take 0 (LogzSubAccountTagRuleId_ID exampleId) = ''''"
    by (simp add: ex)
  have r0: "isl (LogzSubAccountTagRuleID '''')"
    using a[rule_format, of 0] t0 by (simp add: len)
  have t1: "take 1 (LogzSubAccountTagRuleId_ID exampleId) = ''/''"
    by (simp add: ex)
  have r1: "isl (LogzSubAccountTagRuleID ''/'')"
    using a[rule_format, of 1] t1 by (simp add: len)
  have t2: "take 15 (LogzSubAccountTagRuleId_ID exampleId) = ''/subscriptions/''"
    by (simp add: ex)
  have r2: "isl (LogzSubAccountTagRuleID ''/subscriptions/'')"
    using a[rule_format, of 15] t2 by (simp add: len)
  have t3: "take 52 (LogzSubAccountTagRuleId_ID exampleId) = ''/subscriptions/12345678-1234-9876-4563-123456789012/''"
    by (simp add: ex)
  have r3: "isl (LogzSubAccountTagRuleID ''/subscriptions/12345678-1234-9876-4563-123456789012/'')"
    using a[rule_format, of 52] t3 by (simp add: len)
  have t4: "take 67 (LogzSubAccountTagRuleId_ID exampleId) = ''/subscriptions/12345678-1234-9876-4563-123456789012/resourceGroups/''"
    by (simp add: ex)
  have r4: "isl (LogzSubAccountTagRuleID ''/subscriptions/12345678-1234-9876-4563-123456789012/resourceGroups/'')"
    using a[rule_format, of 67] t4 by (simp add: len)
  have t5: "take 107 (LogzSubAccountTagRuleId_ID exampleId) = ''/subscriptions/12345678-1234-9876-4563-123456789012/resourceGroups/resourceGroup1/providers/Microsoft.Logz/''"
    by (simp add: ex)
  have r5: "isl (LogzSubAccountTagRuleID ''/subscriptions/12345678-1234-9876-4563-123456789012/resourceGroups/resourceGroup1/providers/Microsoft.Logz/'')"
    using a[rule_format, of 107] t5 by (simp add: len)
  have t6: "take 116 (LogzSubAccountTagRuleId_ID exampleId) = ''/subscriptions/12345678-1234-9876-4563-123456789012/resourceGroups/resourceGroup1/providers/Microsoft.Logz/monitors/''"
    by (simp add: ex)
  have r6: "isl (LogzSubAccountTagRuleID ''/subscriptions/12345678-1234-9876-4563-123456789012/resourceGroups/resourceGroup1/providers/Microsoft.Logz/monitors/'')"
    using a[rule_format, of 116] t6 by (simp add: len)
  have t7: "take 125 (LogzSubAccountTagRuleId_ID exampleId) = ''/subscriptions/12345678-1234-9876-4563-123456789012/resourceGroups/resourceGroup1/providers/Microsoft.Logz/monitors/monitor1/''"
    by (simp add: ex)
  have r7: "isl (LogzSubAccountTagRuleID ''/subscriptions/12345678-1234-9876-4563-123456789012/resourceGroups/resourceGroup1/providers/Microsoft.Logz/monitors/monitor1/'')"
    using a[rule_format, of 125] t7 by (simp add: len)
  have t8: "take 134 (LogzSubAccountTagRuleId_ID exampleId) = ''/subscriptions/12345678-1234-9876-4563-123456789012/resourceGroups/resourceGroup1/providers/Microsoft.Logz/monitors/monitor1/accounts/''"
    by (simp add: ex)
  have r8: "isl (LogzSubAccountTagRuleID ''/subscriptions/12345678-1234-9876-4563-123456789012/resourceGroups/resourceGroup1/providers/Microsoft.Logz/monitors/monitor1/accounts/'')"
    using a[rule_format, of 134] t8 by (simp add: len)
  have t9: "take 146 (LogzSubAccountTagRuleId_ID exampleId) = ''/subscriptions/12345678-1234-9876-4563-123456789012/resourceGroups/resourceGroup1/providers/Microsoft.Logz/monitors/monitor1/accounts/subAccount1/''"
    by (simp add: ex)
  have r9: "isl (LogzSubAccountTagRuleID ''/subscriptions/12345678-1234-9876-4563-123456789012/resourceGroups/resourceGroup1/providers/Microsoft.Logz/monitors/monitor1/accounts/subAccount1/'')"
    using a[rule_format, of 146] t9 by (simp add: len)
  have t10: "take 155 (LogzSubAccountTagRuleId_ID exampleId) = ''/subscriptions/12345678-1234-9876-4563-123456789012/resourceGroups/resourceGroup1/providers/Microsoft.Logz/monitors/monitor1/accounts/subAccount1/tagRules/''"
    by (simp add: ex)
  have r10: "isl (LogzSubAccountTagRuleID ''/subscriptions/12345678-1234-9876-4563-123456789012/resourceGroups/resourceGroup1/providers/Microsoft.Logz/monitors/monitor1/accounts/subAccount1/tagRules/'')"
    using a[rule_format, of 155] t10 by (simp add: len)
  have u: "toUpper (LogzSubAccountTagRuleId_ID exampleId) = ''/SUBSCRIPTIONS/12345678-1234-9876-4563-123456789012/RESOURCEGROUPS/RESOURCEGROUP1/PROVIDERS/MICROSOFT.LOGZ/MONITORS/MONITOR1/ACCOUNTS/SUBACCOUNT1/TAGRULES/RULESET1''"
    by (simp add: ex toUpper_def toUpperChar_def)
  from main u have ru: "isl (LogzSubAccountTagRuleID ''/SUBSCRIPTIONS/12345678-1234-9876-4563-123456789012/RESOURCEGROUPS/RESOURCEGROUP1/PROVIDERS/MICROSOFT.LOGZ/MONITORS/MONITOR1/ACCOUNTS/SUBACCOUNT1/TAGRULES/RULESET1'')" by simp
  from main have "isl (LogzSubAccountTagRuleID (LogzSubAccountTagRuleId_ID
      (NewLogzSubAccountTagRuleID [] ''resourceGroup1'' ''monitor1'' ''subAccount1'' ''ruleSet1'')))"
    by simp
  then have re: "isl (LogzSubAccountTagRuleID ''/subscriptions//resourceGroups/resourceGroup1/providers/Microsoft.Logz/monitors/monitor1/accounts/subAccount1/tagRules/ruleSet1'')"
    by (simp add: LogzSubAccountTagRuleId_ID_def NewLogzSubAccountTagRuleID_def)
  from main have sg: "\<forall>input.
             (\<nexists>s rg m a t. s \<noteq> [] \<and> rg \<noteq> [] \<and> m \<noteq> [] \<and> a \<noteq> [] \<and> t \<noteq> []
                \<and> splitOn CHR ''/'' input
                    = ['''', ''subscriptions'', s, ''resourceGroups'', rg, ''providers'',
                       ''Microsoft.Logz'', ''monitors'', m, ''accounts'', a, ''tagRules'', t])
             \<longrightarrow> isl (LogzSubAccountTagRuleID input)"
    by blast
  have b1: "isl (LogzSubAccountTagRuleID ''/subscriptions/12345678-1234-9876-4563-123456789012/resourceGroups/resourceGroup1/Microsoft.Logz/monitors/monitor1/accounts/subAccount1/tagRules/ruleSet1'')"
    by (rule sg[rule_format]) simp
  have b2: "isl (LogzSubAccountTagRuleID ''/subscriptions/12345678-1234-9876-4563-123456789012/resourceGroups/resourceGroup1/providers/Microsoft.Logz/monitors/monitor1/Accounts/subAccount1/tagRules/ruleSet1'')"
    by (rule sg[rule_format]) simp
  have b3: "isl (LogzSubAccountTagRuleID ''/subscriptions/12345678-1234-9876-4563-123456789012/resourceGroups/resourceGroup1/providers/Microsoft.Logz/monitors/monitor1/accounts/tagRules/ruleSet1'')"
    by (rule sg[rule_format]) simp
  have ok: "LogzSubAccountTagRuleID (LogzSubAccountTagRuleId_ID exampleId) = Inr exampleId"
    using roundtrip[OF v] .
  from v r0 r1 r2 r3 r4 r5 r6 r7 r8 r9 r10 ru re b1 b2 b3 ok show ?thesis by blast
qed

section \<open>Properties of the resource handlers\<close>

lemmas crud_defs = demoMeta_def demoNew_def demoTracked_def demoIdent_def client_Get_def
  client_CreateOrUpdate_def client_Delete_def future_WaitForCompletionRef_def getString_def
  getBool_def schemaDefault_def ResourceData_Set_def ResourceData_SetId_def NewSpringCloudAppID_def
  NewSpringCloudAppAssociationID_def createBinding_def springCloudAppRedisAssociationKeySSL_def

lemmas outputs_defs = demoOutputs_def demoModel_def demoOutputId_def outputs_Get_def
  outputs_CreateOrReplace_def NewOutputID_def createOutput_def
  OutputTableResource_ResourceType_def

text \<open>The create/update handler on a new resource, by the answers of its three calls.\<close>

lemma createUpdate_new_cases:
  assumes "IsNewResource d"
    and "SpringCloudAppID meta (getString d ''spring_cloud_app_id'') = Inr appId"
    and "ident = NewSpringCloudAppAssociationID (appSubscriptionId appId) (appResourceGroup appId)
                   (appSpringName appId) (appAppName appId) (getString d ''name'')"
    and "client_Get meta ident n = ((existing, err), n1)"
    and "client_CreateOrUpdate meta ident (createBinding d) n1 = ((future, cerr), n2)"
    and "future_WaitForCompletionRef meta future n2 = (werr, n3)"
  shows "resourceSpringCloudAppRedisAssociationCreateUpdate meta d n =
    (case (case err of None \<Rightarrow> None
           | Some e \<Rightarrow> if \<not> ResponseWasNotFound meta (Response existing)
                then Some (Errorf ''checking for present of existing %s: %+v''
                            [ArgS (AssociationId_String meta ident), ArgE e]) else None) of
       Some e' \<Rightarrow> (Return (Some e'), d, n1)
     | None \<Rightarrow>
         if \<not> ResponseWasNotFound meta (Response existing)
         then (Return (Some (ImportAsExistsError ''azurerm_spring_cloud_app_redis_association''
                 (AssociationId_ID meta ident))), d, n1)
         else (case cerr of
                 Some e \<Rightarrow> (Return (Some (Errorf ''creating %s: %+v''
                                 [ArgS (AssociationId_String meta ident), ArgE e])), d, n2)
               | None \<Rightarrow>
                   (case werr of
                      Some e \<Rightarrow> (Return (Some (Errorf ''waiting for creation/update of %q: %+v''
                                 [ArgS (AssociationId_String meta ident), ArgE e])), d, n3)
                    | None \<Rightarrow> resourceSpringCloudAppRedisAssociationRead meta
                                 (d\<lparr>ResourceData_Id := AssociationId_ID meta ident\<rparr>) n3)))"
  using assms
  by (simp add: resourceSpringCloudAppRedisAssociationCreateUpdate_def createBinding_def
        ResourceData_SetId_def Let_def split: option.splits)

lemma outputTable_create_cases:
  assumes "Decode meta = (model, None)"
    and "ident = NewOutputID (AccountSubscriptionId meta) (mResourceGroup model)
                   (mStreamAnalyticsJob model) (mName model)"
    and "outputs_Get meta ident n = ((existing, err), n1)"
    and "outputs_CreateOrReplace meta (createOutput model) ident n1 = ((r, cerr), n2)"
  shows "OutputTableResource_Create meta tracked n =
    (case (case err of None \<Rightarrow> None
           | Some e \<Rightarrow> if \<not> OutputsResponseWasNotFound meta existing
                then Some (Errorf ''checking for presence of existing %s: %+v''
                            [ArgS (OutputId_String meta ident), ArgE e]) else None) of
       Some e' \<Rightarrow> (Some e', tracked, n1)
     | None \<Rightarrow>
         if \<not> OutputsResponseWasNotFound meta existing
         then (Some (ResourceRequiresImport OutputTableResource_ResourceType
                 (OutputId_ID meta ident)), tracked, n1)
         else (case cerr of
                 Some e \<Rightarrow> (Some (Errorf ''creating %s: %+v''
                              [ArgS (OutputId_String meta ident), ArgE e]), tracked, n2)
               | None \<Rightarrow> (None, OutputId_ID meta ident, n2)))"
  using assms
  by (simp add: OutputTableResource_Create_def createOutput_def Let_def split: option.splits)

text \<open>
  C7 (amended).  On a new resource the create handler first probes for the object by its ID.
  If the probe's response is not a not-found one, no creation call is issued: create fails
  with a "checking for presence of existing" error when the probe returned an error, and
  with the already-exists (import required) error when it returned none.  Only when the
  probe's response is not-found is the creation call issued.  The Spring Cloud handler then
  waits for the long-running operation and records the ID only after the wait has returned
  without error, before it reads the resource back; the output table handler's creation
  call is synchronous and the ID is recorded once it has returned without error.
\<close>

theorem create_probes_before_creating:
  assumes "IsNewResource d"
    and "SpringCloudAppID meta (getString d ''spring_cloud_app_id'') = Inr appId"
    and "ident = NewSpringCloudAppAssociationID (appSubscriptionId appId) (appResourceGroup appId)
                   (appSpringName appId) (appAppName appId) (getString d ''name'')"
    and "client_Get meta ident n = ((existing, err), n1)"
    and "client_CreateOrUpdate meta ident (createBinding d) n1 = ((future, cerr), n2)"
    and "future_WaitForCompletionRef meta future n2 = (werr, n3)"
    and "Decode ometa = (model, None)"
    and "oident = NewOutputID (AccountSubscriptionId ometa) (mResourceGroup model)
                   (mStreamAnalyticsJob model) (mName model)"
    and "outputs_Get ometa oident m = ((oexisting, oerr), m1)"
    and "outputs_CreateOrReplace ometa (createOutput model) oident m1 = ((r, ocerr), m2)"
  shows "(\<forall>e. \<not> ResponseWasNotFound meta (Response existing) \<and> err = Some e \<longrightarrow>
            resourceSpringCloudAppRedisAssociationCreateUpdate meta d n
              = (Return (Some (Errorf ''checking for present of existing %s: %+v''
                                 [ArgS (AssociationId_String meta ident), ArgE e])), d, n1))
       \<and> (\<not> ResponseWasNotFound meta (Response existing) \<and> err = None \<longrightarrow>
            resourceSpringCloudAppRedisAssociationCreateUpdate meta d n
              = (Return (Some (ImportAsExistsError ''azurerm_spring_cloud_app_redis_association''
                                 (AssociationId_ID meta ident))), d, n1))
       \<and> (\<forall>e. ResponseWasNotFound meta (Response existing) \<and> cerr = Some e \<longrightarrow>
            resourceSpringCloudAppRedisAssociationCreateUpdate meta d n
              = (Return (Some (Errorf ''creating %s: %+v''
                                 [ArgS (AssociationId_String meta ident), ArgE e])), d, n2))
       \<and> (\<forall>e. ResponseWasNotFound meta (Response existing) \<and> cerr = None \<and> werr = Some e \<longrightarrow>
            resourceSpringCloudAppRedisAssociationCreateUpdate meta d n
              = (Return (Some (Errorf ''waiting for creation/update of %q: %+v''
                                 [ArgS (AssociationId_String meta ident), ArgE e])), d, n3))
       \<and> (ResponseWasNotFound meta (Response existing) \<and> cerr = None \<and> werr = None \<longrightarrow>
            resourceSpringCloudAppRedisAssociationCreateUpdate meta d n
              = resourceSpringCloudAppRedisAssociationRead meta
                  (d\<lparr>ResourceData_Id := AssociationId_ID meta ident\<rparr>) n3)
       \<and> fst n1 = fst n @ [GetCall (assocResourceGroup ident) (assocSpringName ident)
                             (assocAppName ident) (assocBindingName ident)]
       \<and> fst n2 = fst n1 @ [CreateOrUpdateCall (assocResourceGroup ident) (assocSpringName ident)
                             (assocAppName ident) (assocBindingName ident) (createBinding d)]
       \<and> fst n3 = fst n2 @ [WaitForCompletionCall]
       \<and> (\<forall>e. \<not> OutputsResponseWasNotFound ometa oexisting \<and> oerr = Some e \<longrightarrow>
            OutputTableResource_Create ometa tracked m
              = (Some (Errorf ''checking for presence of existing %s: %+v''
                         [ArgS (OutputId_String ometa oident), ArgE e]), tracked, m1))
       \<and> (\<not> OutputsResponseWasNotFound ometa oexisting \<and> oerr = None \<longrightarrow>
            OutputTableResource_Create ometa tracked m
              = (Some (ResourceRequiresImport OutputTableResource_ResourceType
                         (OutputId_ID ometa oident)), tracked, m1))
       \<and> (\<forall>e. OutputsResponseWasNotFound ometa oexisting \<and> ocerr = Some e \<longrightarrow>
            OutputTableResource_Create ometa tracked m
              = (Some (Errorf ''creating %s: %+v''
                         [ArgS (OutputId_String ometa oident), ArgE e]), tracked, m2))
       \<and> (OutputsResponseWasNotFound ometa oexisting \<and> ocerr = None \<longrightarrow>
            OutputTableResource_Create ometa tracked m = (None, OutputId_ID ometa oident, m2))
       \<and> fst m1 = fst m @ [OutputGetCall (outResourceGroup oident) (outStreamingjobName oident)
                             (outName oident)]
       \<and> fst m2 = fst m1 @ [OutputCreateOrReplaceCall (createOutput model) (outResourceGroup oident)
                             (outStreamingjobName oident) (outName oident) [] []]"
proof -
  have logs: "fst n1 = fst n @ [GetCall (assocResourceGroup ident) (assocSpringName ident)
                             (assocAppName ident) (assocBindingName ident)]"
     "fst n2 = fst n1 @ [CreateOrUpdateCall (assocResourceGroup ident) (assocSpringName ident)
                             (assocAppName ident) (assocBindingName ident) (createBinding d)]"
     "fst n3 = fst n2 @ [WaitForCompletionCall]"
    using assms(4,5,6)
    by (auto simp: client_Get_def client_CreateOrUpdate_def future_WaitForCompletionRef_def
          split: prod.splits)
  have ologs: "fst m1 = fst m @ [OutputGetCall (outResourceGroup oident)
                  (outStreamingjobName oident) (outName oident)]"
     "fst m2 = fst m1 @ [OutputCreateOrReplaceCall (createOutput model) (outResourceGroup oident)
                             (outStreamingjobName oident) (outName oident) [] []]"
    using assms(9,10)
    by (auto simp: outputs_Get_def outputs_CreateOrReplace_def split: prod.splits)
  note sc = createUpdate_new_cases[OF assms(1-6)]
  note ot = outputTable_create_cases[OF assms(7-10), of tracked]
  have 1: "\<forall>e. \<not> ResponseWasNotFound meta (Response existing) \<and> err = Some e \<longrightarrow>
            resourceSpringCloudAppRedisAssociationCreateUpdate meta d n
              = (Return (Some (Errorf ''checking for present of existing %s: %+v''
                                 [ArgS (AssociationId_String meta ident), ArgE e])), d, n1)"
    unfolding sc by simp
  have 2: "\<not> ResponseWasNotFound meta (Response existing) \<and> err = None \<longrightarrow>
            resourceSpringCloudAppRedisAssociationCreateUpdate meta d n
              = (Return (Some (ImportAsExistsError ''azurerm_spring_cloud_app_redis_association''
                                 (AssociationId_ID meta ident))), d, n1)"
    unfolding sc by simp
  have 3: "\<forall>e. ResponseWasNotFound meta (Response existing) \<and> cerr = Some e \<longrightarrow>
            resourceSpringCloudAppRedisAssociationCreateUpdate meta d n
              = (Return (Some (Errorf ''creating %s: %+v''
                                 [ArgS (AssociationId_String meta ident), ArgE e])), d, n2)"
    unfolding sc by (cases err) simp_all
  have 4: "\<forall>e. ResponseWasNotFound meta (Response existing) \<and> cerr = None \<and> werr = Some e \<longrightarrow>
            resourceSpringCloudAppRedisAssociationCreateUpdate meta d n
              = (Return (Some (Errorf ''waiting for creation/update of %q: %+v''
                                 [ArgS (AssociationId_String meta ident), ArgE e])), d, n3)"
    unfolding sc by (cases err) simp_all
  have 5: "ResponseWasNotFound meta (Response existing) \<and> cerr = None \<and> werr = None \<longrightarrow>
            resourceSpringCloudAppRedisAssociationCreateUpdate meta d n
              = resourceSpringCloudAppRedisAssociationRead meta
                  (d\<lparr>ResourceData_Id := AssociationId_ID meta ident\<rparr>) n3"
    unfolding sc by (cases err) simp_all
  have 6: "\<forall>e. \<not> OutputsResponseWasNotFound ometa oexisting \<and> oerr = Some e \<longrightarrow>
            OutputTableResource_Create ometa tracked m
              = (Some (Errorf ''checking for presence of existing %s: %+v''
                         [ArgS (OutputId_String ometa oident), ArgE e]), tracked, m1)"
    unfolding ot by simp
  have 7: "\<not> OutputsResponseWasNotFound ometa oexisting \<and> oerr = None \<longrightarrow>
            OutputTableResource_Create ometa tracked m
              = (Some (ResourceRequiresImport OutputTableResource_ResourceType
                         (OutputId_ID ometa oident)), tracked, m1)"
    unfolding ot by simp
  have 8: "\<forall>e. OutputsResponseWasNotFound ometa oexisting \<and> ocerr = Some e \<longrightarrow>
            OutputTableResource_Create ometa tracked m
              = (Some (Errorf ''creating %s: %+v''
                         [ArgS (OutputId_String ometa oident), ArgE e]), tracked, m2)"
    unfolding ot by (cases oerr) simp_all
  have 9: "OutputsResponseWasNotFound ometa oexisting \<and> ocerr = None \<longrightarrow>
            OutputTableResource_Create ometa tracked m = (None, OutputId_ID ometa oident, m2)"
    unfolding ot by (cases oerr) simp_all
  from 1 2 3 4 5 logs 6 7 8 9 ologs show ?thesis by blast
qed

theorem create_probes_before_creating_witness:
  "resourceSpringCloudAppRedisAssociationCreateUpdate demoMeta demoNew ([], 1)
     = (Return (Some (ImportAsExistsError ''azurerm_spring_cloud_app_redis_association'' ''assoc1'')),
        demoNew, ([GetCall ''rg'' ''spring'' ''app'' ''bind''], 1))
   \<and> resourceSpringCloudAppRedisAssociationCreateUpdate demoMeta demoNew ([], 2)
     = (Return (Some (Errorf ''checking for present of existing %s: %+v''
                        [ArgS ''assoc1'', ArgE (External ''StatusCode=500'')])),
        demoNew, ([GetCall ''rg'' ''spring'' ''app'' ''bind''], 2))
   \<and> resourceSpringCloudAppRedisAssociationCreateUpdate demoMeta demoNew ([], 3)
     = (Return (Some (Errorf ''creating %s: %+v''
                        [ArgS ''assoc1'', ArgE (External ''StatusCode=409'')])),
        demoNew, ([GetCall ''rg'' ''spring'' ''app'' ''bind'',
                   CreateOrUpdateCall ''rg'' ''spring'' ''app'' ''bind'' (createBinding demoNew)], 3))
   \<and> resourceSpringCloudAppRedisAssociationCreateUpdate demoMeta demoNew ([], 4)
     = (Return (Some (Errorf ''waiting for creation/update of %q: %+v''
                        [ArgS ''assoc1'', ArgE (External ''operation failed'')])),
        demoNew, ([GetCall ''rg'' ''spring'' ''app'' ''bind'',
                   CreateOrUpdateCall ''rg'' ''spring'' ''app'' ''bind'' (createBinding demoNew),
                   WaitForCompletionCall], 4))
   \<and> resourceSpringCloudAppRedisAssociationCreateUpdate demoMeta demoNew ([], 0)
     = resourceSpringCloudAppRedisAssociationRead demoMeta (demoNew\<lparr>ResourceData_Id := ''assoc1''\<rparr>)
         ([GetCall ''rg'' ''spring'' ''app'' ''bind'',
           CreateOrUpdateCall ''rg'' ''spring'' ''app'' ''bind'' (createBinding demoNew),
           WaitForCompletionCall], 1)
   \<and> OutputTableResource_Create demoOutputs [] ([], 1)
     = (Some (ResourceRequiresImport ''azurerm_stream_analytics_output_table'' ''output1''), [],
        ([OutputGetCall ''rg'' ''job'' ''out''], 1))
   \<and> OutputTableResource_Create demoOutputs [] ([], 2)
     = (Some (Errorf ''checking for presence of existing %s: %+v''
                [ArgS ''output1'', ArgE (External ''StatusCode=500'')]), [],
        ([OutputGetCall ''rg'' ''job'' ''out''], 2))
   \<and> OutputTableResource_Create demoOutputs [] ([], 3)
     = (Some (Errorf ''creating %s: %+v'' [ArgS ''output1'', ArgE (External ''StatusCode=409'')]), [],
        ([OutputGetCall ''rg'' ''job'' ''out'',
          OutputCreateOrReplaceCall (createOutput demoModel) ''rg'' ''job'' ''out'' [] []], 3))
   \<and> OutputTableResource_Create demoOutputs [] ([], 0)
     = (None, ''output1'',
        ([OutputGetCall ''rg'' ''job'' ''out'',
          OutputCreateOrReplaceCall (createOutput demoModel) ''rg'' ''job'' ''out'' [] []], 1))"
proof -
  let ?g = "GetCall ''rg'' ''spring'' ''app'' ''bind''"
  let ?c = "CreateOrUpdateCall ''rg'' ''spring'' ''app'' ''bind'' (createBinding demoNew)"
  let ?og = "OutputGetCall ''rg'' ''job'' ''out''"
  let ?oc = "OutputCreateOrReplaceCall (createOutput demoModel) ''rg'' ''job'' ''out'' [] []"
  have new: "IsNewResource demoNew" by (simp add: demoNew_def)
  have app: "SpringCloudAppID demoMeta (getString demoNew ''spring_cloud_app_id'')
      = Inr (NewSpringCloudAppID ''sub'' ''rg'' ''spring'' ''app'')"
    by (simp add: demoMeta_def demoNew_def getString_def)
  have ident: "demoIdent = NewSpringCloudAppAssociationID
      (appSubscriptionId (NewSpringCloudAppID ''sub'' ''rg'' ''spring'' ''app''))
      (appResourceGroup (NewSpringCloudAppID ''sub'' ''rg'' ''spring'' ''app''))
      (appSpringName (NewSpringCloudAppID ''sub'' ''rg'' ''spring'' ''app''))
      (appAppName (NewSpringCloudAppID ''sub'' ''rg'' ''spring'' ''app''))
      (getString demoNew ''name'')"
    by (simp add: demoIdent_def NewSpringCloudAppID_def demoNew_def getString_def)
  have g: "client_Get demoMeta demoIdent ([], 0)
        = ((\<lparr>Response = 404, Properties = None\<rparr>, Some (External ''StatusCode=404'')), ([?g], 0))"
      "client_Get demoMeta demoIdent ([], 1)
        = ((\<lparr>Response = 200,
             Properties = Some \<lparr>BindingParameters = [''useSsl'' \<mapsto> IString ''true''],
                                 Key = None, ResourceID = Some ''redis1''\<rparr>\<rparr>, None), ([?g], 1))"
      "client_Get demoMeta demoIdent ([], 2)
        = ((\<lparr>Response = 500, Properties = None\<rparr>, Some (External ''StatusCode=500'')), ([?g], 2))"
      "client_Get demoMeta demoIdent ([], 3)
        = ((\<lparr>Response = 404, Properties = None\<rparr>, Some (External ''StatusCode=404'')), ([?g], 3))"
      "client_Get demoMeta demoIdent ([], 4)
        = ((\<lparr>Response = 404, Properties = None\<rparr>, Some (External ''StatusCode=404'')), ([?g], 4))"
    by (simp_all add: demoMeta_def demoIdent_def client_Get_def NewSpringCloudAppAssociationID_def)
  have c: "client_CreateOrUpdate demoMeta demoIdent (createBinding demoNew) ([?g], 0)
        = ((7, None), ([?g, ?c], 1))"
      "client_CreateOrUpdate demoMeta demoIdent (createBinding demoNew) ([?g], 1)
        = ((7, None), ([?g, ?c], 1))"
      "client_CreateOrUpdate demoMeta demoIdent (createBinding demoNew) ([?g], 2)
        = ((7, None), ([?g, ?c], 1))"
      "client_CreateOrUpdate demoMeta demoIdent (createBinding demoNew) ([?g], 3)
        = ((7, Some (External ''StatusCode=409'')), ([?g, ?c], 3))"
      "client_CreateOrUpdate demoMeta demoIdent (createBinding demoNew) ([?g], 4)
        = ((8, None), ([?g, ?c], 4))"
    by (simp_all add: demoMeta_def demoIdent_def client_CreateOrUpdate_def
          NewSpringCloudAppAssociationID_def)
  have w: "future_WaitForCompletionRef demoMeta 7 ([?g, ?c], 1) = (None, ([?g, ?c, WaitForCompletionCall], 1))"
      "future_WaitForCompletionRef demoMeta 7 ([?g, ?c], 3) = (None, ([?g, ?c, WaitForCompletionCall], 3))"
      "future_WaitForCompletionRef demoMeta 8 ([?g, ?c], 4)
        = (Some (External ''operation failed''), ([?g, ?c, WaitForCompletionCall], 4))"
    by (simp_all add: demoMeta_def future_WaitForCompletionRef_def)
  have dec: "Decode demoOutputs = (demoModel, None)" by (simp add: demoOutputs_def)
  have oid: "demoOutputId = NewOutputID (AccountSubscriptionId demoOutputs) (mResourceGroup demoModel)
      (mStreamAnalyticsJob demoModel) (mName demoModel)"
    by (simp add: demoOutputId_def demoOutputs_def demoModel_def)
  have og: "outputs_Get demoOutputs demoOutputId ([], 0) = ((404, Some (External ''StatusCode=404'')), ([?og], 0))"
      "outputs_Get demoOutputs demoOutputId ([], 1) = ((200, None), ([?og], 1))"
      "outputs_Get demoOutputs demoOutputId ([], 2) = ((500, Some (External ''StatusCode=500'')), ([?og], 2))"
      "outputs_Get demoOutputs demoOutputId ([], 3) = ((404, Some (External ''StatusCode=404'')), ([?og], 3))"
    by (simp_all add: demoOutputs_def demoOutputId_def outputs_Get_def NewOutputID_def)
  have oc: "outputs_CreateOrReplace demoOutputs (createOutput demoModel) demoOutputId ([?og], 0)
        = ((200, None), ([?og, ?oc], 1))"
      "outputs_CreateOrReplace demoOutputs (createOutput demoModel) demoOutputId ([?og], 1)
        = ((200, None), ([?og, ?oc], 1))"
      "outputs_CreateOrReplace demoOutputs (createOutput demoModel) demoOutputId ([?og], 2)
        = ((200, None), ([?og, ?oc], 1))"
      "outputs_CreateOrReplace demoOutputs (createOutput demoModel) demoOutputId ([?og], 3)
        = ((409, Some (External ''StatusCode=409'')), ([?og, ?oc], 3))"
    by (simp_all add: demoOutputs_def demoOutputId_def outputs_CreateOrReplace_def NewOutputID_def)
  have s: "ResponseWasNotFound demoMeta = (\<lambda>r. r = 404)"
      "AssociationId_String demoMeta demoIdent = ''assoc1''"
      "AssociationId_ID demoMeta demoIdent = ''assoc1''"
      "OutputsResponseWasNotFound demoOutputs = (\<lambda>r. r = 404)"
      "OutputId_String demoOutputs demoOutputId = ''output1''"
      "OutputId_ID demoOutputs demoOutputId = ''output1''"
    by (simp_all add: demoMeta_def demoOutputs_def)
  note t0 = create_probes_before_creating[OF new app ident g(1) c(1) w(1) dec oid og(1) oc(1), of "[]"]
  note t1 = create_probes_before_creating[OF new app ident g(2) c(2) w(1) dec oid og(2) oc(2), of "[]"]
  note t2 = create_probes_before_creating[OF new app ident g(3) c(3) w(1) dec oid og(3) oc(3), of "[]"]
  note t3 = create_probes_before_creating[OF new app ident g(4) c(4) w(2) dec oid og(4) oc(4), of "[]"]
  note t4 = create_probes_before_creating[OF new app ident g(5) c(5) w(3) dec oid og(1) oc(1), of "[]"]
  from t0 t1 t2 t3 t4 show ?thesis
    by (simp add: s OutputTableResource_ResourceType_def)
qed

text \<open>
  C7 as stated fails: when the probe is answered with status 500, which is not a not-found
  response, create fails with the "checking for present of existing" error and not with the
  already-exists error.
\<close>

theorem create_probe_error_counterexample:
  "IsNewResource demoNew
   \<and> \<not> ResponseWasNotFound demoMeta
         (Response (fst (fst (Get demoMeta ''rg'' ''spring'' ''app'' ''bind'' 2))))
   \<and> resourceSpringCloudAppRedisAssociationCreateUpdate demoMeta demoNew ([], 2)
       = (Return (Some (Errorf ''checking for present of existing %s: %+v''
                          [ArgS ''assoc1'', ArgE (External ''StatusCode=500'')])),
          demoNew, ([GetCall ''rg'' ''spring'' ''app'' ''bind''], 2))
   \<and> fst (resourceSpringCloudAppRedisAssociationCreateUpdate demoMeta demoNew ([], 2))
       \<noteq> Return (Some (ImportAsExistsError ''azurerm_spring_cloud_app_redis_association'' ''assoc1''))"
  by (simp add: resourceSpringCloudAppRedisAssociationCreateUpdate_def crud_defs)

text \<open>
  C8.  When the read handler's Get call returns an error with a not-found response, the
  handler sets the tracked ID to the empty string, sets no attribute and returns no error;
  when Get returns any other error, the handler returns an error and leaves the resource
  data, the tracked ID included, as it was.
\<close>

theorem read_not_found_clears_id:
  assumes "SpringCloudAppAssociationID meta (ResourceData_Id d) = Inr ident"
    and "client_Get meta ident n = ((resp, Some e), n1)"
  shows "(ResponseWasNotFound meta (Response resp) \<longrightarrow>
            resourceSpringCloudAppRedisAssociationRead meta d n
              = (Return None, d\<lparr>ResourceData_Id := []\<rparr>, n1))
       \<and> (\<not> ResponseWasNotFound meta (Response resp) \<longrightarrow>
            resourceSpringCloudAppRedisAssociationRead meta d n
              = (Return (Some (Errorf ''reading %s: %+v''
                                 [ArgS (AssociationId_String meta ident), ArgE e])), d, n1))"
  using assms by (simp add: resourceSpringCloudAppRedisAssociationRead_def ResourceData_SetId_def)

theorem read_not_found_clears_id_witness:
  "resourceSpringCloudAppRedisAssociationRead demoMeta demoTracked ([], 0)
     = (Return None, demoTracked\<lparr>ResourceData_Id := []\<rparr>,
        ([GetCall ''rg'' ''spring'' ''app'' ''bind''], 0))
   \<and> Attrs (demoTracked\<lparr>ResourceData_Id := []\<rparr>) = Attrs demoTracked
   \<and> resourceSpringCloudAppRedisAssociationRead demoMeta demoTracked ([], 2)
     = (Return (Some (Errorf ''reading %s: %+v''
                        [ArgS ''assoc1'', ArgE (External ''StatusCode=500'')])),
        demoTracked, ([GetCall ''rg'' ''spring'' ''app'' ''bind''], 2))"
proof -
  have p: "SpringCloudAppAssociationID demoMeta (ResourceData_Id demoTracked) = Inr demoIdent"
    by (simp add: demoMeta_def demoTracked_def demoNew_def demoIdent_def)
  have g0: "client_Get demoMeta demoIdent ([], 0)
      = ((\<lparr>Response = 404, Properties = None\<rparr>, Some (External ''StatusCode=404'')),
         ([GetCall ''rg'' ''spring'' ''app'' ''bind''], 0))"
    by (simp add: crud_defs)
  have g2: "client_Get demoMeta demoIdent ([], 2)
      = ((\<lparr>Response = 500, Properties = None\<rparr>, Some (External ''StatusCode=500'')),
         ([GetCall ''rg'' ''spring'' ''app'' ''bind''], 2))"
    by (simp add: crud_defs)
  have nf: "ResponseWasNotFound demoMeta (404::nat)" "\<not> ResponseWasNotFound demoMeta (500::nat)"
      "AssociationId_String demoMeta demoIdent = ''assoc1''"
    by (simp_all add: demoMeta_def)
  from read_not_found_clears_id[OF p g0] read_not_found_clears_id[OF p g2] nf
  show ?thesis by simp
qed

text \<open>
  C9 as stated fails: from the state in which the binding exists, a first delete succeeds;
  the deletion call of a second delete is answered with status 404, and the handler returns
  that as an error.
\<close>

theorem delete_twice_counterexample:
  "resourceSpringCloudAppRedisAssociationDelete demoMeta demoTracked ([], 1)
     = (None, demoTracked, ([DeleteCall ''rg'' ''spring'' ''app'' ''bind'', WaitForCompletionCall], 0))
   \<and> Delete demoMeta ''rg'' ''spring'' ''app'' ''bind'' 0 = ((7, Some (External ''StatusCode=404'')), 0)
   \<and> resourceSpringCloudAppRedisAssociationDelete demoMeta demoTracked ([], 0)
     = (Some (Errorf ''deleting %s: %+v'' [ArgS ''assoc1'', ArgE (External ''StatusCode=404'')]),
        demoTracked, ([DeleteCall ''rg'' ''spring'' ''app'' ''bind''], 0))"
  by (simp add: resourceSpringCloudAppRedisAssociationDelete_def crud_defs)

text \<open>
  C9 (amended).  The delete handler issues the deletion and waits for the long-running
  operation; it returns success exactly when both the deletion call and the wait return
  no error.  An error of the deletion call is returned wrapped as "deleting", an error of
  the wait as "waiting for deletion of", whatever the error is: the handler does not look
  for a not-found response, so deleting an absent resource succeeds only if the client
  reports no error for it.
\<close>

theorem delete_succeeds_iff_calls_succeed:
  assumes "SpringCloudAppAssociationID meta (ResourceData_Id d) = Inr ident"
    and "client_Delete meta ident n = ((future, derr), n1)"
    and "future_WaitForCompletionRef meta future n1 = (werr, n2)"
  shows "(fst (resourceSpringCloudAppRedisAssociationDelete meta d n) = None)
           = (derr = None \<and> werr = None)
       \<and> (\<forall>e. derr = Some e \<longrightarrow>
             resourceSpringCloudAppRedisAssociationDelete meta d n
               = (Some (Errorf ''deleting %s: %+v''
                          [ArgS (AssociationId_String meta ident), ArgE e]), d, n1))
       \<and> (\<forall>e. derr = None \<and> werr = Some e \<longrightarrow>
             resourceSpringCloudAppRedisAssociationDelete meta d n
               = (Some (Errorf ''waiting for deletion of %q: %+v''
                          [ArgS (AssociationId_String meta ident), ArgE e]), d, n2))
       \<and> (derr = None \<and> werr = None \<longrightarrow>
             resourceSpringCloudAppRedisAssociationDelete meta d n = (None, d, n2))"
  using assms
  by (cases derr; cases werr) (simp_all add: resourceSpringCloudAppRedisAssociationDelete_def)

theorem delete_succeeds_iff_calls_succeed_witness:
  "fst (resourceSpringCloudAppRedisAssociationDelete demoMeta demoTracked ([], 1)) = None
   \<and> snd (snd (resourceSpringCloudAppRedisAssociationDelete demoMeta demoTracked ([], 1)))
       = ([DeleteCall ''rg'' ''spring'' ''app'' ''bind'', WaitForCompletionCall], 0)
   \<and> resourceSpringCloudAppRedisAssociationDelete demoMeta demoTracked ([], 0)
       = (Some (Errorf ''deleting %s: %+v'' [ArgS ''assoc1'', ArgE (External ''StatusCode=404'')]),
          demoTracked, ([DeleteCall ''rg'' ''spring'' ''app'' ''bind''], 0))"
proof -
  let ?d = "DeleteCall ''rg'' ''spring'' ''app'' ''bind''"
  have p: "SpringCloudAppAssociationID demoMeta (ResourceData_Id demoTracked) = Inr demoIdent"
    by (simp add: demoMeta_def demoTracked_def demoNew_def demoIdent_def)
  have d1: "client_Delete demoMeta demoIdent ([], 1) = ((7, None), ([?d], 0))"
    by (simp add: crud_defs)
  have w1: "future_WaitForCompletionRef demoMeta 7 ([?d], 0) = (None, ([?d, WaitForCompletionCall], 0))"
    by (simp add: crud_defs)
  have d0: "client_Delete demoMeta demoIdent ([], 0)
      = ((7, Some (External ''StatusCode=404'')), ([?d], 0))"
    by (simp add: crud_defs)
  have s: "AssociationId_String demoMeta demoIdent = ''assoc1''" by (simp add: demoMeta_def)
  from delete_succeeds_iff_calls_succeed[OF p d1 w1]
       delete_succeeds_iff_calls_succeed[OF p d0 w1] s
  show ?thesis by simp
qed

end
